theory Spec2Isabelle
  imports Main
begin

section \<open>Values that cross the boundary of the resolution layer\<close>

text \<open>
  A value thrown by the JavaScript code. \<open>Error m\<close> is \<open>new Error(m)\<close>, \<open>TypeError m\<close> is
  the runtime's own error for a member access on \<open>undefined\<close> or a call of a non-function
  (an instance of \<open>Error\<close> too), and \<open>Undefined\<close> is the value \<open>undefined\<close> thrown as it is.
\<close>

datatype thrown = Error string | TypeError string | Undefined

section \<open>utils/helpers: retry with exponential backoff\<close>

text \<open>
  The operation is a zero-argument effectful callback: its outcome at its \<open>k\<close>-th invocation
  is \<open>operation k\<close>. The state counts the invocations made so far and records every
  duration handed to \<open>delay\<close>, in order.
\<close>

record retry_state =
  calls :: nat
  waited :: "int list"

definition delay :: "int \<Rightarrow> retry_state \<Rightarrow> retry_state" where
  "delay ms st = st\<lparr>waited := waited st @ [ms]\<rparr>"

text \<open>
  The \<open>for (attempt = 0; attempt < maxRetries; attempt++)\<close> loop of \<open>retry\<close>, entered at
  \<open>attempt\<close> with the current \<open>lastError\<close> (\<open>None\<close> while it is unassigned). The branch
  after the loop is \<open>throw lastError\<close>.
\<close>

function retry_from ::
  "(nat \<Rightarrow> thrown + 'a) \<Rightarrow> int \<Rightarrow> int \<Rightarrow> nat \<Rightarrow> thrown option \<Rightarrow> retry_state
    \<Rightarrow> (thrown + 'a) \<times> retry_state" where
  "retry_from operation maxRetries delayMs attempt lastError st =
     (if int attempt < maxRetries then
        (case operation (calls st) of
           Inr v \<Rightarrow> (Inr v, st\<lparr>calls := Suc (calls st)\<rparr>)
         | Inl err \<Rightarrow>
             (let st1 = st\<lparr>calls := Suc (calls st)\<rparr>;
                  st2 = (if int attempt < maxRetries - 1
                         then delay (delayMs * 2 ^ attempt) st1 else st1)
              in retry_from operation maxRetries delayMs (Suc attempt) (Some err) st2))
      else (Inl (case lastError of None \<Rightarrow> Undefined | Some e \<Rightarrow> e), st))"
  by pat_completeness auto
termination
  by (relation "measure (\<lambda>(operation, maxRetries, delayMs, attempt, lastError, st).
        nat (maxRetries - int attempt))") auto

text \<open>\<open>retry(operation, maxRetries = 3, delayMs = 1000)\<close>: an omitted argument is \<open>None\<close>.\<close>

definition retry ::
  "(nat \<Rightarrow> thrown + 'a) \<Rightarrow> int option \<Rightarrow> int option \<Rightarrow> retry_state
    \<Rightarrow> (thrown + 'a) \<times> retry_state" where
  "retry operation maxRetries delayMs st =
     retry_from operation (case maxRetries of None \<Rightarrow> 3 | Some m \<Rightarrow> m)
       (case delayMs of None \<Rightarrow> 1000 | Some d \<Rightarrow> d) 0 None st"

section \<open>Strings\<close>

text \<open>
  JavaScript strings are modelled as lists of characters; the characters of the model cover
  the Latin-1 range, which holds every character the code tests for.
\<close>

definition is_digit :: "char \<Rightarrow> bool" where
  "is_digit c = (48 \<le> (of_char c :: nat) \<and> (of_char c :: nat) \<le> 57)"

definition is_hex :: "char \<Rightarrow> bool" where
  "is_hex c = (is_digit c
     \<or> (97 \<le> (of_char c :: nat) \<and> (of_char c :: nat) \<le> 102)
     \<or> (65 \<le> (of_char c :: nat) \<and> (of_char c :: nat) \<le> 70))"

text \<open>White space and line terminators, as \<open>String.prototype.trim\<close> and \<open>parseInt\<close> skip them.\<close>

definition is_space :: "char \<Rightarrow> bool" where
  "is_space c = ((of_char c :: nat) \<in> {9, 10, 11, 12, 13, 32, 160})"

definition trim :: "string \<Rightarrow> string" where
  "trim s = rev (dropWhile is_space (rev (dropWhile is_space s)))"

text \<open>
  \<open>s.split(sep)\<close> for a one-character separator. The result is never empty
  (\<open>"".split(":")\<close> is \<open>[""]\<close>), so its element 0 always exists.
\<close>

primrec split_on :: "char \<Rightarrow> string \<Rightarrow> string list" where
  "split_on sep [] = [[]]"
| "split_on sep (c # cs) =
     (if c = sep then [] # split_on sep cs
      else (case split_on sep cs of p # ps \<Rightarrow> (c # p) # ps | [] \<Rightarrow> [[c]]))"

definition startsWith :: "string \<Rightarrow> string \<Rightarrow> bool" where
  "startsWith s pat = (take (length pat) s = pat)"

text \<open>\<open>s.replace(pat, rep)\<close> with a string pattern: only the first occurrence is replaced.\<close>

primrec replace_first :: "string \<Rightarrow> string \<Rightarrow> string \<Rightarrow> string" where
  "replace_first pat rep [] = (if pat = [] then rep else [])"
| "replace_first pat rep (c # cs) =
     (if take (length pat) (c # cs) = pat then rep @ drop (length pat) (c # cs)
      else c # replace_first pat rep cs)"

text \<open>The decimal rendering \<open>num.toString()\<close> of an integral number.\<close>

fun nat_toString :: "nat \<Rightarrow> string" where
  "nat_toString n =
     (if n < 10 then [char_of (48 + n)]
      else nat_toString (n div 10) @ [char_of (48 + n mod 10)])"

definition num_toString :: "int \<Rightarrow> string" where
  "num_toString n = (if n < 0 then CHR ''-'' # nat_toString (nat (- n)) else nat_toString (nat n))"

text \<open>
  \<open>parseInt(s, 10)\<close>: leading white space is skipped, a sign is read, and the longest run of
  decimal digits that follows is the value; \<open>None\<close> is \<open>NaN\<close>, the result when no digit
  follows.
\<close>

definition digit_val :: "char \<Rightarrow> nat" where
  "digit_val c = (of_char c :: nat) - 48"

definition digits_value :: "string \<Rightarrow> nat" where
  "digits_value ds = foldl (\<lambda>n c. 10 * n + digit_val c) 0 ds"

definition parseInt :: "string \<Rightarrow> int option" where
  "parseInt s =
     (let s1 = dropWhile is_space s;
          neg = (case s1 of c # _ \<Rightarrow> c = CHR ''-'' | [] \<Rightarrow> False);
          s2 = (case s1 of c # r \<Rightarrow> (if c = CHR ''-'' \<or> c = CHR ''+'' then r else s1) | [] \<Rightarrow> s1);
          ds = takeWhile is_digit s2
      in if ds = [] then None
         else Some (if neg then - int (digits_value ds) else int (digits_value ds)))"

section \<open>IpManager: validation of IP literals\<close>

text \<open>
  \<open>/^(\d{1,3})\.(\d{1,3})\.(\d{1,3})\.(\d{1,3})$/\<close>: the whole string is four groups of one to
  three decimal digits with a dot between neighbours. A digit is never a dot, so the groups
  are the parts of the string between its dots.
\<close>

definition digit_group :: "string \<Rightarrow> bool" where
  "digit_group g = (1 \<le> length g \<and> length g \<le> 3 \<and> list_all is_digit g)"

definition ipv4Regex_test :: "string \<Rightarrow> bool" where
  "ipv4Regex_test ip =
     (length (split_on CHR ''.'' ip) = 4 \<and> list_all digit_group (split_on CHR ''.'' ip))"

text \<open>\<open>/^[0-9a-fA-F:]+$/\<close> and \<open>/^[0-9a-fA-F]{1,4}$/\<close>.\<close>

definition ipv6Regex_test :: "string \<Rightarrow> bool" where
  "ipv6Regex_test ip = (ip \<noteq> [] \<and> list_all (\<lambda>c. is_hex c \<or> c = CHR '':'') ip)"

definition hex_group :: "string \<Rightarrow> bool" where
  "hex_group g = (1 \<le> length g \<and> length g \<le> 4 \<and> list_all is_hex g)"

text \<open>
  \<open>(ip.match(/::/g) || []).length\<close>: the matches of a global pattern are found from left to
  right and do not overlap.
\<close>

fun count_double_colon :: "string \<Rightarrow> nat" where
  "count_double_colon (c # d # cs) =
     (if c = CHR '':'' \<and> d = CHR '':'' then Suc (count_double_colon cs)
      else count_double_colon (d # cs))"
| "count_double_colon cs = 0"

definition fallbackIpValidation :: "string \<Rightarrow> bool" where
  "fallbackIpValidation ip =
     (if ipv4Regex_test ip then
        list_all (\<lambda>octet.
            (case parseInt octet of
               None \<Rightarrow> False
             | Some num \<Rightarrow> num \<ge> 0 \<and> num \<le> 255 \<and> octet = num_toString num))
          (split_on CHR ''.'' ip)
      else if ipv6Regex_test ip \<and> CHR '':'' \<in> set ip then
        (let colonCount = length (filter (\<lambda>c. c = CHR '':'') ip);
             parts = split_on CHR '':'' ip
         in if colonCount < 2 \<or> colonCount > 7 then False
            else if count_double_colon ip > 1 then False
            else list_all (\<lambda>part. part = [] \<or> hex_group part) parts)
      else False)"

text \<open>
  \<open>isIP\<close> is the built-in of Node's \<open>net\<close> module, which is not part of this repository:
  it is a parameter. \<open>isIP ip = None\<close> stands for \<open>require('net')\<close> or the call throwing,
  which sends \<open>isValidIp\<close> to the fallback.
\<close>

definition isValidIp :: "(string \<Rightarrow> nat option) \<Rightarrow> string \<Rightarrow> bool" where
  "isValidIp isIP ip =
     (case isIP ip of Some result \<Rightarrow> result \<noteq> 0 | None \<Rightarrow> fallbackIpValidation ip)"

section \<open>IP literals as the specification describes them\<close>

text \<open>
  These two predicates follow the words of the specification, not the code; the validators
  above are compared with them. An IPv4 literal is exactly four dot-separated groups, each
  the canonical decimal rendering of a number in \<open>[0,255]\<close>.
\<close>

definition spec_ipv4_octet :: "string \<Rightarrow> bool" where
  "spec_ipv4_octet g = (g \<in> nat_toString ` {0..255})"

definition spec_ipv4_literal :: "string \<Rightarrow> bool" where
  "spec_ipv4_literal ip =
     (length (split_on CHR ''.'' ip) = 4 \<and> list_all spec_ipv4_octet (split_on CHR ''.'' ip))"



section \<open>IpManager: the client address of a request\<close>

text \<open>
  The part of an Express request that \<open>getClientIp\<close> reads. An address field is \<open>None\<close>
  when it, or an object on the optional chain that leads to it, is \<open>undefined\<close>. A header
  is a string or a list of strings, and \<open>None\<close> when absent.
\<close>

datatype header_value = HString string | HArray "string list"

record Request =
  req_ip :: "string option"
  connection_remoteAddress :: "string option"
  socket_remoteAddress :: "string option"
  connection_socket_remoteAddress :: "string option"
  headers :: "string \<rightharpoonup> header_value"

text \<open>Truthiness: \<open>undefined\<close> and the empty string are falsy; every array is truthy.\<close>

definition truthy :: "string option \<Rightarrow> bool" where
  "truthy v = (case v of None \<Rightarrow> False | Some a \<Rightarrow> a \<noteq> [])"

definition header_truthy :: "header_value option \<Rightarrow> bool" where
  "header_truthy h =
     (case h of None \<Rightarrow> False | Some (HString a) \<Rightarrow> a \<noteq> [] | Some (HArray _) \<Rightarrow> True)"

definition js_or :: "string option \<Rightarrow> string option \<Rightarrow> string option" where
  "js_or a b = (if truthy a then a else b)"

text \<open>\<open>h || d\<close> for a header \<open>h\<close> and a value \<open>d\<close> that is present.\<close>

definition header_or :: "header_value option \<Rightarrow> header_value \<Rightarrow> header_value" where
  "header_or h d = (case h of Some v \<Rightarrow> (if header_truthy h then v else d) | None \<Rightarrow> d)"

text \<open>
  The initial value of \<open>ip\<close>: \<open>req.ip || connection?.remoteAddress ||
  socket?.remoteAddress || connection?.socket?.remoteAddress\<close>.
\<close>

definition direct_address :: "Request \<Rightarrow> string option" where
  "direct_address req =
     js_or (req_ip req) (js_or (connection_remoteAddress req)
       (js_or (socket_remoteAddress req) (connection_socket_remoteAddress req)))"

definition getClientIp :: "Request \<Rightarrow> thrown + string" where
  "getClientIp req =
     (let ip0 = direct_address req
      in if ip0 = Some ''::1'' then Inr ''127.0.0.1''
         else
           (let ip1 = (case ip0 of
                         Some a \<Rightarrow> (if a \<noteq> [] \<and> startsWith a ''::ffff:''
                                    then Some (replace_first ''::ffff:'' [] a) else ip0)
                       | None \<Rightarrow> ip0);
                step2 = (if \<not> truthy ip1 \<or> ip1 = Some ''::1'' then
                           (case headers req ''x-forwarded-for'' of
                              Some (HArray forwarded) \<Rightarrow>
                                (case forwarded of
                                   [] \<Rightarrow> Inl (TypeError
                                     ''Cannot read properties of undefined (reading 'split')'')
                                 | f # _ \<Rightarrow> Inr (Some (trim (hd (split_on CHR '','' f)))))
                            | Some (HString forwarded) \<Rightarrow>
                                Inr (Some (trim (hd (split_on CHR '','' forwarded))))
                            | None \<Rightarrow> Inr ip1)
                         else Inr ip1)
            in case step2 of
                 Inl e \<Rightarrow> Inl e
               | Inr ip2 \<Rightarrow>
                   (let ip3 = (if \<not> truthy ip2 \<or> ip2 = Some ''::1'' then
                                 header_or (headers req ''x-real-ip'')
                                   (header_or (headers req ''x-client-ip'')
                                      (HString ''unknown''))
                               else (case ip2 of Some a \<Rightarrow> HString a | None \<Rightarrow> HString []))
                    in case ip3 of
                         HString a \<Rightarrow> Inr (hd (split_on CHR '':'' a))
                       | HArray _ \<Rightarrow> Inl (TypeError ''ip.split is not a function''))))"

section \<open>Configuration, clock, transport and the TTL cache\<close>

text \<open>\<open>NetworkInfoConfig\<close>, with the nested objects \<open>api\<close>, \<open>cache\<close> and \<open>features\<close> flattened.\<close>

record NetworkInfoConfig =
  api_ipifyUrl :: string
  api_geolocationUrl :: string
  api_timeout :: int
  api_retries :: int
  cache_enabled :: bool
  cache_ttl :: int
  features_rateLimiting :: bool
  features_fallbackProviders :: bool

record 'a CacheEntry =
  data :: 'a
  timestamp :: int
  ttl :: int

text \<open>
  A parsed response body. Only \<open>typeof\<close>, truthiness and the members of an object are read
  by the code, so numbers are integers here and arrays are left out.
\<close>

datatype json = JNull | JBool bool | JNum int | JStr string | JObj "(string \<times> json) list"

definition json_truthy :: "json \<Rightarrow> bool" where
  "json_truthy v =
     (case v of JNull \<Rightarrow> False | JBool b \<Rightarrow> b | JNum n \<Rightarrow> n \<noteq> 0
              | JStr a \<Rightarrow> a \<noteq> [] | JObj _ \<Rightarrow> True)"

text \<open>\<open>v.name\<close> on a value that is not \<open>null\<close>; \<open>None\<close> is \<open>undefined\<close>.\<close>

definition member :: "json \<Rightarrow> string \<Rightarrow> json option" where
  "member v name = (case v of JObj kvs \<Rightarrow> map_of kvs name | _ \<Rightarrow> None)"

text \<open>The string a value is converted to inside a template literal or by \<open>RegExp.test\<close>.\<close>

definition js_String :: "json option \<Rightarrow> string" where
  "js_String v =
     (case v of
        None \<Rightarrow> ''undefined''
      | Some JNull \<Rightarrow> ''null''
      | Some (JBool b) \<Rightarrow> (if b then ''true'' else ''false'')
      | Some (JNum n) \<Rightarrow> num_toString n
      | Some (JStr a) \<Rightarrow> a
      | Some (JObj _) \<Rightarrow> ''[object Object]'')"

text \<open>
  The HTTP transport is outside the repository. \<open>network k url timeout\<close> is what the
  \<open>k\<close>-th request made answers when it goes to \<open>url\<close> with that timeout: a rejection
  or a response body, and the time the request takes.
\<close>

record reply =
  outcome :: "thrown + json"
  elapsed :: int

type_synonym network = "nat \<Rightarrow> string \<Rightarrow> int \<Rightarrow> reply"

text \<open>
  The mutable state of one manager and of the world around it: the manager's cache
  (\<open>Map<string, CacheEntry>\<close>), the clock \<open>Date.now()\<close> reads, and the requests made so
  far, oldest first.
\<close>

record 'a state =
  cache :: "string \<rightharpoonup> 'a CacheEntry"
  now :: int
  contacted :: "(string \<times> int) list"

definition axios_get :: "network \<Rightarrow> string \<Rightarrow> int \<Rightarrow> 'a state \<Rightarrow> (thrown + json) \<times> 'a state" where
  "axios_get net url tmo s =
     (let r = net (length (contacted s)) url tmo
      in (outcome r, s\<lparr>now := now s + elapsed r, contacted := contacted s @ [(url, tmo)]\<rparr>))"

definition getCached :: "NetworkInfoConfig \<Rightarrow> string \<Rightarrow> 'a state \<Rightarrow> 'a option \<times> 'a state" where
  "getCached config key s =
     (if \<not> cache_enabled config then (None, s)
      else (case cache s key of
              None \<Rightarrow> (None, s)
            | Some entry \<Rightarrow>
                (if now s - timestamp entry > ttl entry
                 then (None, s\<lparr>cache := (cache s)(key := None)\<rparr>)
                 else (Some (data entry), s))))"

text \<open>\<open>setCached(key, data, ttl?)\<close>; in \<open>ttl || this.config.cache.ttl\<close> a zero is falsy.\<close>

definition setCached :: "NetworkInfoConfig \<Rightarrow> string \<Rightarrow> 'a \<Rightarrow> int option \<Rightarrow> 'a state \<Rightarrow> 'a state" where
  "setCached config key v ttl_arg s =
     (if \<not> cache_enabled config then s
      else s\<lparr>cache := (cache s)(key \<mapsto>
             \<lparr>data = v, timestamp = now s,
              ttl = (case ttl_arg of
                       Some t \<Rightarrow> (if t \<noteq> 0 then t else cache_ttl config)
                     | None \<Rightarrow> cache_ttl config)\<rparr>)\<rparr>)"

definition clearCache :: "string option \<Rightarrow> 'a state \<Rightarrow> 'a state" where
  "clearCache key s =
     (case key of
        Some k \<Rightarrow> (if k \<noteq> [] then s\<lparr>cache := (cache s)(k := None)\<rparr>
                   else s\<lparr>cache := Map.empty\<rparr>)
      | None \<Rightarrow> s\<lparr>cache := Map.empty\<rparr>)"

section \<open>IpManager: the public address\<close>

definition ip_providers :: "string list" where
  "ip_providers =
     [''https://api.ipify.org?format=json'',
      ''https://api64.ipify.org?format=json'',
      ''https://icanhazip.com'']"

text \<open>
  The candidate a response body yields: the trimmed text of a string body, or the truthy
  member \<open>ip\<close> of an object; \<open>None\<close> is the \<open>continue\<close> of the last branch. The
  candidate has the declared type \<open>string\<close>; a member \<open>ip\<close> that is not a string is
  rejected by the validator, so it gives no candidate here.
\<close>

definition ip_candidate :: "json \<Rightarrow> string option" where
  "ip_candidate body =
     (case body of
        JStr a \<Rightarrow> Some (trim a)
      | _ \<Rightarrow> (if json_truthy body then
                (case member body ''ip'' of
                   Some (JStr a) \<Rightarrow> (if a \<noteq> [] then Some a else None)
                 | _ \<Rightarrow> None)
              else None))"

text \<open>
  The \<open>for (const provider of providers)\<close> loop of \<open>getPublicIp\<close> over the providers
  still to try, followed by the \<open>throw\<close> after it. The warning written to the console in
  the \<open>catch\<close> branch is not modelled.
\<close>

fun public_ip_loop ::
  "NetworkInfoConfig \<Rightarrow> (string \<Rightarrow> nat option) \<Rightarrow> network \<Rightarrow> string list \<Rightarrow> string state
    \<Rightarrow> (thrown + string) \<times> string state" where
  "public_ip_loop config isIP net [] s = (Inl (Error ''All IP service providers failed''), s)"
| "public_ip_loop config isIP net (provider # rest) s =
     (case axios_get net provider (api_timeout config) s of
        (Inl err, s1) \<Rightarrow> public_ip_loop config isIP net rest s1
      | (Inr body, s1) \<Rightarrow>
          (case ip_candidate body of
             None \<Rightarrow> public_ip_loop config isIP net rest s1
           | Some ip \<Rightarrow>
               (if isValidIp isIP ip
                then (Inr ip, setCached config ''public-ip'' ip None s1)
                else public_ip_loop config isIP net rest s1)))"

definition getPublicIp ::
  "NetworkInfoConfig \<Rightarrow> (string \<Rightarrow> nat option) \<Rightarrow> network \<Rightarrow> string state
    \<Rightarrow> (thrown + string) \<times> string state" where
  "getPublicIp config isIP net s =
     (case getCached config ''public-ip'' s of
        (Some cached, s0) \<Rightarrow>
          (if cached \<noteq> [] then (Inr cached, s0)
           else public_ip_loop config isIP net ip_providers s0)
      | (None, s0) \<Rightarrow> public_ip_loop config isIP net ip_providers s0)"

definition IpManager_healthCheck :: "network \<Rightarrow> 'a state \<Rightarrow> bool \<times> 'a state" where
  "IpManager_healthCheck net s =
     (case axios_get net ''https://api.ipify.org'' 5000 s of
        (Inl err, s1) \<Rightarrow> (False, s1)
      | (Inr body, s1) \<Rightarrow> (True, s1))"

section \<open>LocationManager\<close>

definition location_providers :: "string list" where
  "location_providers = [''https://ipapi.co'', ''https://ipwho.is'', ''https://ipinfo.io'']"

text \<open>
  \<open>/^(\d{1,3}\.){3}\d{1,3}$/\<close> and \<open>/^([0-9a-fA-F]{1,4}:){7}[0-9a-fA-F]{1,4}$/\<close>: four dotted
  groups of one to three digits, or eight colon-separated groups of one to four hex digits.
\<close>

definition LocationManager_isValidIp :: "string \<Rightarrow> bool" where
  "LocationManager_isValidIp ip =
     ((length (split_on CHR ''.'' ip) = 4 \<and> list_all digit_group (split_on CHR ''.'' ip))
      \<or> (length (split_on CHR '':'' ip) = 8 \<and> list_all hex_group (split_on CHR '':'' ip)))"

definition isValidLocationData :: "json \<Rightarrow> bool" where
  "isValidLocationData d =
     (json_truthy d
      \<and> (case member d ''ip'' of Some (JStr _) \<Rightarrow> True | _ \<Rightarrow> False)
      \<and> (case member d ''country_name'' of Some (JStr _) \<Rightarrow> True | _ \<Rightarrow> False)
      \<and> (case member d ''latitude'' of Some (JNum _) \<Rightarrow> True | _ \<Rightarrow> False)
      \<and> (case member d ''longitude'' of Some (JNum _) \<Rightarrow> True | _ \<Rightarrow> False))"

text \<open>
  \<open>getCurrentPublicIp\<close> returns \<open>response.data.ip\<close> whatever it is (\<open>None\<close> is
  \<open>undefined\<close>); a rejected request, and the member access on a \<open>null\<close> body, end in the
  \<open>catch\<close> branch.
\<close>

definition getCurrentPublicIp ::
  "NetworkInfoConfig \<Rightarrow> network \<Rightarrow> json state \<Rightarrow> (thrown + json option) \<times> json state" where
  "getCurrentPublicIp config net s =
     (case axios_get net ''https://api.ipify.org?format=json'' (api_timeout config) s of
        (Inl err, s1) \<Rightarrow> (Inl (Error ''Failed to get public IP for location lookup''), s1)
      | (Inr body, s1) \<Rightarrow>
          (if body = JNull then (Inl (Error ''Failed to get public IP for location lookup''), s1)
           else (Inr (member body ''ip''), s1)))"

text \<open>\<open>const targetIp = ip || await this.getCurrentPublicIp()\<close>.\<close>

definition resolveTargetIp ::
  "NetworkInfoConfig \<Rightarrow> network \<Rightarrow> string option \<Rightarrow> json state
    \<Rightarrow> (thrown + json option) \<times> json state" where
  "resolveTargetIp config net ip s =
     (case ip of
        Some a \<Rightarrow> (if a \<noteq> [] then (Inr (Some (JStr a)), s)
                   else getCurrentPublicIp config net s)
      | None \<Rightarrow> getCurrentPublicIp config net s)"

text \<open>\<open>ip ? `${provider}/${ip}/json/` : `${provider}/json/`\<close>.\<close>

definition location_url :: "string \<Rightarrow> string option \<Rightarrow> string" where
  "location_url provider ip =
     (case ip of
        Some a \<Rightarrow> (if a \<noteq> [] then provider @ ''/'' @ a @ ''/json/'' else provider @ ''/json/'')
      | None \<Rightarrow> provider @ ''/json/'')"

text \<open>The provider loop of \<open>getLocation\<close> and the \<open>throw\<close> after it.\<close>

fun location_loop ::
  "NetworkInfoConfig \<Rightarrow> network \<Rightarrow> string option \<Rightarrow> string \<Rightarrow> string list \<Rightarrow> json state
    \<Rightarrow> (thrown + json) \<times> json state" where
  "location_loop config net ip cacheKey [] s =
     (Inl (Error ''All geolocation providers failed''), s)"
| "location_loop config net ip cacheKey (provider # rest) s =
     (let url = location_url provider ip
      in case axios_get net url (api_timeout config) s of
           (Inl err, s1) \<Rightarrow> location_loop config net ip cacheKey rest s1
         | (Inr body, s1) \<Rightarrow>
             (if json_truthy body \<and> isValidLocationData body
              then (Inr body, setCached config cacheKey body None s1)
              else location_loop config net ip cacheKey rest s1))"

definition getLocation ::
  "NetworkInfoConfig \<Rightarrow> network \<Rightarrow> string option \<Rightarrow> json state
    \<Rightarrow> (thrown + json) \<times> json state" where
  "getLocation config net ip s =
     (case resolveTargetIp config net ip s of
        (Inl err, s1) \<Rightarrow> (Inl err, s1)
      | (Inr targetIp, s1) \<Rightarrow>
          (if \<not> LocationManager_isValidIp (js_String targetIp)
           then (Inl (Error (''Invalid IP address: '' @ js_String targetIp)), s1)
           else
             (case getCached config (''location-'' @ js_String targetIp) s1 of
                (Some cached, s2) \<Rightarrow>
                  (if json_truthy cached then (Inr cached, s2)
                   else location_loop config net ip (''location-'' @ js_String targetIp)
                          location_providers s2)
              | (None, s2) \<Rightarrow>
                  location_loop config net ip (''location-'' @ js_String targetIp)
                    location_providers s2)))"

definition getCurrentLocation ::
  "NetworkInfoConfig \<Rightarrow> network \<Rightarrow> json state \<Rightarrow> (thrown + json) \<times> json state" where
  "getCurrentLocation config net s = getLocation config net None s"

definition LocationManager_healthCheck :: "network \<Rightarrow> 'a state \<Rightarrow> bool \<times> 'a state" where
  "LocationManager_healthCheck net s =
     (case axios_get net ''https://ipapi.co/json/'' 5000 s of
        (Inl err, s1) \<Rightarrow> (False, s1)
      | (Inr body, s1) \<Rightarrow> (True, s1))"

section \<open>What one provider attempt yields\<close>

text \<open>
  An attempt on a provider succeeds when the request is answered, the body gives a
  candidate and the candidate is valid; it fails on a transport error, on a body that gives
  no candidate, and on an invalid candidate. These two functions name the value an attempt
  yields from the outcome of its request, \<open>None\<close> for a failed attempt.
\<close>

definition public_ip_attempt :: "(string \<Rightarrow> nat option) \<Rightarrow> thrown + json \<Rightarrow> string option" where
  "public_ip_attempt isIP out =
     (case out of
        Inl err \<Rightarrow> None
      | Inr body \<Rightarrow>
          (case ip_candidate body of
             None \<Rightarrow> None
           | Some ip \<Rightarrow> (if isValidIp isIP ip then Some ip else None)))"

definition location_attempt :: "thrown + json \<Rightarrow> json option" where
  "location_attempt out =
     (case out of
        Inl err \<Rightarrow> None
      | Inr body \<Rightarrow> (if json_truthy body \<and> isValidLocationData body then Some body else None))"

text \<open>The request made as number \<open>k\<close> after those already made in state \<open>s\<close>.\<close>

definition nth_outcome :: "network \<Rightarrow> 'a state \<Rightarrow> nat \<Rightarrow> string \<Rightarrow> int \<Rightarrow> thrown + json" where
  "nth_outcome net s k url tmo = outcome (net (length (contacted s) + k) url tmo)"

text \<open>\<open>if (cached) return cached\<close>: the lookup gave a truthy value.\<close>

definition cache_hit_string :: "NetworkInfoConfig \<Rightarrow> string \<Rightarrow> string state \<Rightarrow> bool" where
  "cache_hit_string config key s = truthy (fst (getCached config key s))"

definition cache_hit_json :: "NetworkInfoConfig \<Rightarrow> string \<Rightarrow> json state \<Rightarrow> bool" where
  "cache_hit_json config key s =
     (case fst (getCached config key s) of Some c \<Rightarrow> json_truthy c | None \<Rightarrow> False)"

section \<open>NetworkService: aggregation\<close>

record 'd ApiResponse =
  success :: bool
  resp_data :: "'d option"
  resp_error :: "string option"
  resp_timestamp :: int

record 'i FullNetworkInfo =
  publicIp :: string
  location :: json
  interfaces :: 'i
  externalAddresses :: "string list"

record HealthStatus =
  ipServices :: bool
  geolocationServices :: bool
  networkInfo :: bool

text \<open>\<open>error instanceof Error ? error.message : fallback\<close>.\<close>

definition error_message :: "thrown \<Rightarrow> string \<Rightarrow> string" where
  "error_message e fallback =
     (case e of Error m \<Rightarrow> m | TypeError m \<Rightarrow> m | Undefined \<Rightarrow> fallback)"

text \<open>
  \<open>Promise.all\<close> over two promises that run concurrently: it fulfils with both values, and
  rejects with the reason of the promise that rejects first. Each settled promise carries
  the instant at which it settled; of two rejections at the same instant the earlier array
  element was queued first.
\<close>

definition promise_all2 ::
  "int \<times> (thrown + 'a) \<Rightarrow> int \<times> (thrown + 'b) \<Rightarrow> thrown + ('a \<times> 'b)" where
  "promise_all2 p q =
     (case (snd p, snd q) of
        (Inr a, Inr b) \<Rightarrow> Inr (a, b)
      | (Inl e, Inr b) \<Rightarrow> Inl e
      | (Inr a, Inl f) \<Rightarrow> Inl f
      | (Inl e, Inl f) \<Rightarrow> (if fst q < fst p then Inl f else Inl e))"

text \<open>
  \<open>getFullNetworkInfo\<close>, given the settled promises of \<open>getPublicIp()\<close> and
  \<open>getCurrentLocation()\<close>, the results of the two synchronous calls on the network manager
  (a throw of theirs is caught by the same \<open>try\<close>), and the clock at the moment the
  response is built. The result is \<open>Inl\<close> when the returned promise rejects.
\<close>

definition getFullNetworkInfo ::
  "int \<times> (thrown + string) \<Rightarrow> int \<times> (thrown + json) \<Rightarrow> thrown + 'i \<Rightarrow> thrown + string list \<Rightarrow> int
    \<Rightarrow> thrown + 'i FullNetworkInfo ApiResponse" where
  "getFullNetworkInfo publicIpP locationP interfacesR externalAddressesR clock =
     (case (case interfacesR of
              Inl e \<Rightarrow> Inl e
            | Inr ifs \<Rightarrow>
                (case externalAddressesR of
                   Inl e \<Rightarrow> Inl e
                 | Inr ext \<Rightarrow>
                     (case promise_all2 publicIpP locationP of
                        Inl e \<Rightarrow> Inl e
                      | Inr (pip, loc) \<Rightarrow>
                          Inr \<lparr>publicIp = pip, location = loc, interfaces = ifs,
                               externalAddresses = ext\<rparr>))) of
        Inr info \<Rightarrow>
          Inr \<lparr>success = True, resp_data = Some info, resp_error = None,
               resp_timestamp = clock\<rparr>
      | Inl e \<Rightarrow>
          Inr \<lparr>success = False, resp_data = None,
               resp_error = Some (error_message e ''Unknown error occurred''),
               resp_timestamp = clock\<rparr>)"

text \<open>
  \<open>NetworkService.healthCheck\<close>, given the settled promises of the two managers' health
  checks and the clock.
\<close>

definition healthCheck ::
  "int \<times> (thrown + bool) \<Rightarrow> int \<times> (thrown + bool) \<Rightarrow> int \<Rightarrow> thrown + HealthStatus ApiResponse" where
  "healthCheck ipP locationP clock =
     (case promise_all2 ipP locationP of
        Inr (ipOk, geoOk) \<Rightarrow>
          Inr \<lparr>success = True,
               resp_data = Some \<lparr>ipServices = ipOk, geolocationServices = geoOk,
                                  networkInfo = True\<rparr>,
               resp_error = None, resp_timestamp = clock\<rparr>
      | Inl e \<Rightarrow>
          Inr \<lparr>success = False, resp_data = None,
               resp_error = Some (error_message e ''Health check failed''),
               resp_timestamp = clock\<rparr>)"

section \<open>Fixtures of the test suite\<close>

text \<open>
  The configuration the tests use, the same with the cache disabled, the \<open>net\<close> module
  mocked to throw (so that validation takes the fallback), and the transports the tests
  mock: the first request rejected and every later one answered, and every request rejected.
\<close>

definition mockConfig :: NetworkInfoConfig where
  "mockConfig =
     \<lparr>api_ipifyUrl = ''https://api.ipify.org?format=json'',
      api_geolocationUrl = ''https://ipapi.co'',
      api_timeout = 10000, api_retries = 3,
      cache_enabled = True, cache_ttl = 300000,
      features_rateLimiting = True, features_fallbackProviders = True\<rparr>"

definition noCacheConfig :: NetworkInfoConfig where
  "noCacheConfig = mockConfig\<lparr>cache_enabled := False\<rparr>"

definition net_module_unavailable :: "string \<Rightarrow> nat option" where
  "net_module_unavailable ip = None"

definition mockLocationData :: json where
  "mockLocationData =
     JObj [(''ip'', JStr ''192.168.1.1''), (''city'', JStr ''Test City''),
           (''region'', JStr ''Test Region''), (''region_code'', JStr ''TR''),
           (''country'', JStr ''US''), (''country_name'', JStr ''United States''),
           (''continent_code'', JStr ''NA''), (''postal'', JStr ''12345''),
           (''latitude'', JNum 40), (''longitude'', JNum (- 74)),
           (''timezone'', JStr ''America/New_York''), (''utc_offset'', JStr ''-0500''),
           (''country_calling_code'', JStr ''+1''), (''currency'', JStr ''USD''),
           (''languages'', JStr ''en''), (''asn'', JStr ''AS12345''),
           (''org'', JStr ''Test Org''), (''isp'', JStr ''Test ISP'')]"

definition first_rejected_then :: "json \<Rightarrow> network" where
  "first_rejected_then body k url tmo =
     (if k = 0 then \<lparr>outcome = Inl (Error ''First provider failed''), elapsed = 40\<rparr>
      else \<lparr>outcome = Inr body, elapsed = 25\<rparr>)"

definition always_rejected :: network where
  "always_rejected k url tmo = \<lparr>outcome = Inl (Error ''Provider failed''), elapsed = 40\<rparr>"

definition fresh :: "'a state" where
  "fresh = \<lparr>cache = Map.empty, now = 1000, contacted = []\<rparr>"

text \<open>A manager whose cached public address has outlived its TTL.\<close>

definition stale :: "string state" where
  "stale = \<lparr>cache = [''public-ip'' \<mapsto> \<lparr>data = ''192.168.1.1'', timestamp = 1000, ttl = 300000\<rparr>],
            now = 400000, contacted = []\<rparr>"

section \<open>Proofs: retry\<close>


declare retry_from.simps [simp del]

lemma retry_from_success:
  "int (a + k) < m \<Longrightarrow> (\<forall>i<k. \<exists>e. operation (calls st + i) = Inl e) \<Longrightarrow>
   operation (calls st + k) = Inr v \<Longrightarrow>
   retry_from operation m d a le st =
     (Inr v, st\<lparr>calls := calls st + k + 1,
                waited := waited st @ map (\<lambda>i. d * 2 ^ i) [a..<a + k]\<rparr>)"
proof (induction k arbitrary: a le st)
  case 0
  then show ?case by (subst retry_from.simps) simp
next
  case (Suc k)
  from Suc.prems(2) obtain e where e: "operation (calls st) = Inl e" by fastforce
  let ?st2 = "delay (d * 2 ^ a) (st\<lparr>calls := Suc (calls st)\<rparr>)"
  have lt: "int a < m - 1" using Suc.prems(1) by simp
  have c2: "calls ?st2 = Suc (calls st)" by (simp add: delay_def)
  have u: "[a..<a + Suc k] = a # [Suc a..<Suc a + k]" by (simp add: upt_conv_Cons)
  have h2: "\<forall>i<k. \<exists>e. operation (calls ?st2 + i) = Inl e"
    using Suc.prems(2) c2 by (metis Suc_less_eq add_Suc_shift)
  have h3: "operation (calls ?st2 + k) = Inr v" using Suc.prems(3) c2 by simp
  have h1: "int (Suc a + k) < m" using Suc.prems(1) by simp
  have IH: "retry_from operation m d (Suc a) (Some e) ?st2 =
     (Inr v, ?st2\<lparr>calls := calls ?st2 + k + 1,
                waited := waited ?st2 @ map (\<lambda>i. d * 2 ^ i) [Suc a..<Suc a + k]\<rparr>)"
    by (rule Suc.IH[OF h1 h2 h3])
  have "retry_from operation m d a le st = retry_from operation m d (Suc a) (Some e) ?st2"
    using lt e by (subst retry_from.simps) simp
  also note IH
  finally show ?case unfolding u by (simp add: delay_def del: upt_Suc)
qed

lemma retry_from_exhaust:
  "int a + int (Suc k) = m \<Longrightarrow> (\<forall>i\<le>k. \<exists>e. operation (calls st + i) = Inl e) \<Longrightarrow>
   retry_from operation m d a le st =
     (operation (calls st + k), st\<lparr>calls := calls st + Suc k,
                waited := waited st @ map (\<lambda>i. d * 2 ^ i) [a..<a + k]\<rparr>)"
proof (induction k arbitrary: a le st)
  case 0
  from 0(2) obtain e where e: "operation (calls st) = Inl e" by fastforce
  have 1: "retry_from operation m d (Suc a) (Some e) (st\<lparr>calls := Suc (calls st)\<rparr>)
     = (Inl e, st\<lparr>calls := Suc (calls st)\<rparr>)"
    using 0(1) by (subst retry_from.simps) simp
  show ?case using 0(1) e 1 by (subst retry_from.simps) simp
next
  case (Suc k)
  from Suc.prems(2) obtain e where e: "operation (calls st) = Inl e" by fastforce
  let ?st2 = "delay (d * 2 ^ a) (st\<lparr>calls := Suc (calls st)\<rparr>)"
  have lt: "int a < m - 1" using Suc.prems(1) by simp
  have c2: "calls ?st2 = Suc (calls st)" by (simp add: delay_def)
  have u: "[a..<a + Suc k] = a # [Suc a..<Suc a + k]" by (simp add: upt_conv_Cons)
  have h2: "\<forall>i\<le>k. \<exists>e. operation (calls ?st2 + i) = Inl e"
    using Suc.prems(2) c2 by (metis Suc_le_mono add_Suc_shift)
  have h1: "int (Suc a) + int (Suc k) = m" using Suc.prems(1) by simp
  have IH: "retry_from operation m d (Suc a) (Some e) ?st2 =
     (operation (calls ?st2 + k), ?st2\<lparr>calls := calls ?st2 + Suc k,
                waited := waited ?st2 @ map (\<lambda>i. d * 2 ^ i) [Suc a..<Suc a + k]\<rparr>)"
    by (rule Suc.IH[OF h1 h2])
  have "retry_from operation m d a le st = retry_from operation m d (Suc a) (Some e) ?st2"
    using lt e by (subst retry_from.simps) simp
  also note IH
  finally show ?case unfolding u by (simp add: delay_def del: upt_Suc)
qed

text \<open>
  C4. With \<open>maxRetries \<ge> 1\<close>, \<open>retry\<close> invokes the operation at most \<open>maxRetries\<close>
  times. If the first success is at invocation \<open>k\<close> (zero-based, \<open>k < maxRetries\<close>), its
  value is returned unchanged after exactly \<open>k + 1\<close> invocations, and the waits made are
  \<open>delayMs * 2^0, ..., delayMs * 2^(k-1)\<close>, one after each failed attempt. If all
  \<open>maxRetries\<close> attempts fail, the outcome is the rejection of the last attempt itself, after
  exactly \<open>maxRetries\<close> invocations and the waits \<open>delayMs * 2^i\<close> for
  \<open>i < maxRetries - 1\<close> (no wait follows the last attempt). With \<open>maxRetries = 1\<close> there
  is no wait at all.
\<close>

theorem retry_bounded_backoff:
  fixes operation :: "nat \<Rightarrow> thrown + 'a"
  assumes m: "1 \<le> maxRetries"
  shows
    "calls (snd (retry operation (Some maxRetries) (Some delayMs) st))
        \<le> calls st + nat maxRetries
     \<and> (\<forall>k v. int k < maxRetries
            \<and> (\<forall>i<k. \<exists>e. operation (calls st + i) = Inl e)
            \<and> operation (calls st + k) = Inr v
          \<longrightarrow> retry operation (Some maxRetries) (Some delayMs) st =
                (Inr v, st\<lparr>calls := calls st + k + 1,
                            waited := waited st @ map (\<lambda>i. delayMs * 2 ^ i) [0..<k]\<rparr>))
     \<and> ((\<forall>i. int i < maxRetries \<longrightarrow> (\<exists>e. operation (calls st + i) = Inl e))
          \<longrightarrow> retry operation (Some maxRetries) (Some delayMs) st =
                (operation (calls st + (nat maxRetries - 1)),
                 st\<lparr>calls := calls st + nat maxRetries,
                     waited := waited st
                        @ map (\<lambda>i. delayMs * 2 ^ i) [0..<nat maxRetries - 1]\<rparr>))
     \<and> (maxRetries = 1 \<longrightarrow>
          waited (snd (retry operation (Some maxRetries) (Some delayMs) st)) = waited st)"
proof -
  let ?r = "retry operation (Some maxRetries) (Some delayMs) st"
  have r: "?r = retry_from operation maxRetries delayMs 0 None st"
    by (simp add: retry_def)
  define n where "n = nat maxRetries - 1"
  have n: "maxRetries = int (Suc n)" using m unfolding n_def by linarith
  have nn: "nat maxRetries = Suc n" using n by simp
  have S: "retry_from operation maxRetries delayMs 0 None st =
             (Inr v, st\<lparr>calls := calls st + k + 1,
                        waited := waited st @ map (\<lambda>i. delayMs * 2 ^ i) [0..<k]\<rparr>)"
    if "int k < maxRetries" "\<forall>i<k. \<exists>e. operation (calls st + i) = Inl e"
       "operation (calls st + k) = Inr v" for k v
    using retry_from_success[of 0 k maxRetries operation st v delayMs None] that by simp
  have E: "retry_from operation maxRetries delayMs 0 None st =
             (operation (calls st + n), st\<lparr>calls := calls st + Suc n,
                        waited := waited st @ map (\<lambda>i. delayMs * 2 ^ i) [0..<n]\<rparr>)"
    if "\<forall>i. int i < maxRetries \<longrightarrow> (\<exists>e. operation (calls st + i) = Inl e)"
    using retry_from_exhaust[of 0 n maxRetries operation st delayMs None] that n by simp
  have bound: "calls (snd ?r) \<le> calls st + nat maxRetries"
  proof (cases "\<forall>i. int i < maxRetries \<longrightarrow> (\<exists>e. operation (calls st + i) = Inl e)")
    case True
    then show ?thesis using E nn r by simp
  next
    case False
    then have ex: "\<exists>i. int i < maxRetries \<and> (\<exists>v. operation (calls st + i) = Inr v)"
      by (metis sum.exhaust_sel)
    define k where "k = (LEAST i. int i < maxRetries \<and> (\<exists>v. operation (calls st + i) = Inr v))"
    have k: "int k < maxRetries \<and> (\<exists>v. operation (calls st + k) = Inr v)"
      unfolding k_def using ex by (rule LeastI_ex)
    have least: "\<not> (int i < maxRetries \<and> (\<exists>v. operation (calls st + i) = Inr v))" if "i < k" for i
      using that not_less_Least unfolding k_def by blast
    have fails: "\<forall>i<k. \<exists>e. operation (calls st + i) = Inl e"
    proof (intro allI impI)
      fix i assume ik: "i < k"
      then have "int i < maxRetries" using k by simp
      with least[OF ik] have "\<not> (\<exists>v. operation (calls st + i) = Inr v)" by simp
      then show "\<exists>e. operation (calls st + i) = Inl e" by (metis sum.exhaust_sel)
    qed
    from k obtain v where v: "operation (calls st + k) = Inr v" by blast
    have "?r = (Inr v, st\<lparr>calls := calls st + k + 1,
                        waited := waited st @ map (\<lambda>i. delayMs * 2 ^ i) [0..<k]\<rparr>)"
      using S[OF _ fails v] k r by simp
    moreover have "Suc k \<le> nat maxRetries" using k by linarith
    ultimately show ?thesis by simp
  qed
  have one: "waited (snd ?r) = waited st" if "maxRetries = 1"
  proof (cases "operation (calls st)")
    case (Inl e)
    have n0: "n = 0" using that n by simp
    have "\<forall>i. int i < maxRetries \<longrightarrow> (\<exists>e. operation (calls st + i) = Inl e)"
      using Inl that by simp
    from E[OF this] show ?thesis using r n0 by simp
  next
    case (Inr v)
    have "retry_from operation maxRetries delayMs 0 None st =
             (Inr v, st\<lparr>calls := calls st + 0 + 1,
                        waited := waited st @ map (\<lambda>i. delayMs * 2 ^ i) [0..<0]\<rparr>)"
      by (rule S) (use Inr that in simp_all)
    then show ?thesis using r by simp
  qed
  show ?thesis
  proof (intro conjI allI impI)
    show "calls (snd ?r) \<le> calls st + nat maxRetries" by (rule bound)
  next
    fix k v
    assume "int k < maxRetries \<and> (\<forall>i<k. \<exists>e. operation (calls st + i) = Inl e)
            \<and> operation (calls st + k) = Inr v"
    then show "?r = (Inr v, st\<lparr>calls := calls st + k + 1,
                            waited := waited st @ map (\<lambda>i. delayMs * 2 ^ i) [0..<k]\<rparr>)"
      using S r by simp
  next
    assume "\<forall>i. int i < maxRetries \<longrightarrow> (\<exists>e. operation (calls st + i) = Inl e)"
    then show "?r = (operation (calls st + (nat maxRetries - 1)),
                 st\<lparr>calls := calls st + nat maxRetries,
                     waited := waited st
                        @ map (\<lambda>i. delayMs * 2 ^ i) [0..<nat maxRetries - 1]\<rparr>)"
      using E r nn by simp
  next
    assume "maxRetries = 1"
    then show "waited (snd ?r) = waited st" by (rule one)
  qed
qed

theorem retry_bounded_backoff_witness:
  "(1::int) \<le> 3
   \<and> retry (\<lambda>k. (Inl (Error ''Fail'') :: thrown + string)) (Some 3) (Some 100)
        \<lparr>calls = 0, waited = []\<rparr>
      = (Inl (Error ''Fail''), \<lparr>calls = 3, waited = [100, 200]\<rparr>)
   \<and> retry (\<lambda>k. if k = 0 then Inl (Error ''First fail'') else Inr ''success'') (Some 3) (Some 10)
        \<lparr>calls = 0, waited = []\<rparr>
      = (Inr ''success'', \<lparr>calls = 2, waited = [10]\<rparr>)"
proof -
  have h: "(1::int) \<le> 3" by simp
  have fails: "retry (\<lambda>k. (Inl (Error ''Fail'') :: thrown + string)) (Some 3) (Some 100)
        \<lparr>calls = 0, waited = []\<rparr>
      = (Inl (Error ''Fail''), \<lparr>calls = 3, waited = [100, 200]\<rparr>)"
    using retry_bounded_backoff[OF h, where operation = "\<lambda>k. (Inl (Error ''Fail'') :: thrown + string)"
        and st = "\<lparr>calls = 0, waited = []\<rparr>" and delayMs = 100]
    by (simp add: upt_rec)
  let ?op = "\<lambda>k::nat. if k = 0 then Inl (Error ''First fail'') else (Inr ''success'' :: thrown + string)"
  have pre: "int 1 < 3 \<and> (\<forall>i<1. \<exists>e. ?op (calls \<lparr>calls = 0, waited = []\<rparr> + i) = Inl e)
               \<and> ?op (calls \<lparr>calls = 0, waited = []\<rparr> + 1) = Inr ''success''"
    by simp
  have succeeds: "retry ?op (Some 3) (Some 10) \<lparr>calls = 0, waited = []\<rparr>
      = (Inr ''success'', \<lparr>calls = 2, waited = [10]\<rparr>)"
    using retry_bounded_backoff[OF h, where operation = ?op
        and st = "\<lparr>calls = 0, waited = []\<rparr>" and delayMs = 10,
        THEN conjunct2, THEN conjunct1, THEN spec, THEN spec, THEN mp, OF pre]
    by simp
  show ?thesis using h fails succeeds by simp
qed

section \<open>Proofs: strings\<close>

lemma split_on_not_Nil: "split_on sep s \<noteq> []"
  by (induction s) (auto split: list.splits)

lemma hd_split_on: "hd (split_on sep s) = takeWhile (\<lambda>c. c \<noteq> sep) s"
  by (induction s) (auto split: list.splits simp: split_on_not_Nil)

lemma no_sep_hd_split_on: "sep \<notin> set (hd (split_on sep s))"
  unfolding hd_split_on by (induction s) auto

lemma replace_first_prefix: "replace_first pat rep (pat @ s) = rep @ s"
proof (cases "pat @ s")
  case Nil
  then show ?thesis by simp
next
  case (Cons a l)
  have t: "take (length pat) (pat @ s) = pat" "drop (length pat) (pat @ s) = s" by simp_all
  show ?thesis unfolding Cons replace_first.simps using t unfolding Cons by simp
qed

section \<open>Proofs: the client address\<close>

lemma getClientIp_shape:
  "(case getClientIp req of Inl e \<Rightarrow> True | Inr a \<Rightarrow> CHR '':'' \<notin> set a)"
  unfolding getClientIp_def Let_def header_or_def
  by (simp add: no_sep_hd_split_on split: sum.split header_value.split option.split list.split)

text \<open>
  C10. Whenever \<open>getClientIp\<close> returns, the returned string contains no colon: the last
  step keeps only what precedes the first colon of the chosen address. So a direct address
  other than \<open>::1\<close> and the \<open>::ffff:\<close>-prefixed forms, and an address taken from the
  \<open>x-real-ip\<close> header, is returned cut at its first colon: \<open>2001:db8::1\<close> supplied in
  \<open>x-real-ip\<close> comes back as \<open>2001\<close>.
\<close>

theorem getClientIp_no_colon:
  "(getClientIp req = Inr a \<longrightarrow> CHR '':'' \<notin> set a)
   \<and> (direct_address req = Some d \<and> d \<noteq> [] \<and> d \<noteq> ''::1'' \<and> \<not> startsWith d ''::ffff:''
        \<longrightarrow> getClientIp req = Inr (takeWhile (\<lambda>c. c \<noteq> CHR '':'') d))
   \<and> (\<not> truthy (direct_address req) \<and> headers req ''x-forwarded-for'' = None
        \<and> headers req ''x-real-ip'' = Some (HString d) \<and> d \<noteq> []
        \<longrightarrow> getClientIp req = Inr (takeWhile (\<lambda>c. c \<noteq> CHR '':'') d))"
proof (intro conjI impI)
  assume "getClientIp req = Inr a"
  then show "CHR '':'' \<notin> set a" using getClientIp_shape[of req] by simp
next
  assume "direct_address req = Some d \<and> d \<noteq> [] \<and> d \<noteq> ''::1'' \<and> \<not> startsWith d ''::ffff:''"
  then show "getClientIp req = Inr (takeWhile (\<lambda>c. c \<noteq> CHR '':'') d)"
    by (simp add: getClientIp_def Let_def truthy_def hd_split_on)
next
  assume "\<not> truthy (direct_address req) \<and> headers req ''x-forwarded-for'' = None
        \<and> headers req ''x-real-ip'' = Some (HString d) \<and> d \<noteq> []"
  then show "getClientIp req = Inr (takeWhile (\<lambda>c. c \<noteq> CHR '':'') d)"
    by (auto simp: getClientIp_def Let_def truthy_def header_truthy_def header_or_def hd_split_on
          split: option.splits)
qed

theorem getClientIp_no_colon_witness:
  "getClientIp \<lparr>req_ip = None, connection_remoteAddress = None, socket_remoteAddress = None,
       connection_socket_remoteAddress = None,
       headers = [''x-real-ip'' \<mapsto> HString ''2001:db8::1'']\<rparr> = Inr ''2001''
   \<and> CHR '':'' \<notin> set ''2001''"
  using getClientIp_no_colon[of "\<lparr>req_ip = None, connection_remoteAddress = None,
       socket_remoteAddress = None, connection_socket_remoteAddress = None,
       headers = [''x-real-ip'' \<mapsto> HString ''2001:db8::1'']\<rparr>" "''2001''" "''2001:db8::1''"]
  by (simp add: direct_address_def js_or_def truthy_def)

text \<open>
  C8. Normalisation by \<open>getClientIp\<close>: a direct address equal to \<open>::1\<close> gives
  \<open>127.0.0.1\<close>; a direct address \<open>::ffff:\<close> followed by an IPv4 form (a non-empty text
  without colon) gives that embedded form; with no direct address and the header
  \<open>x-forwarded-for\<close> equal to \<open>203.0.113.195, 70.41.3.18\<close> the result is the first entry
  \<open>203.0.113.195\<close>; with no address anywhere the result is \<open>unknown\<close>.
\<close>

theorem getClientIp_normalizes:
  "(direct_address req = Some ''::1'' \<longrightarrow> getClientIp req = Inr ''127.0.0.1'')
   \<and> (direct_address req = Some (''::ffff:'' @ v) \<and> v \<noteq> [] \<and> CHR '':'' \<notin> set v
        \<longrightarrow> getClientIp req = Inr v)
   \<and> (\<not> truthy (direct_address req)
        \<and> headers req ''x-forwarded-for'' = Some (HString ''203.0.113.195, 70.41.3.18'')
        \<longrightarrow> getClientIp req = Inr ''203.0.113.195'')
   \<and> (\<not> truthy (direct_address req) \<and> headers req ''x-forwarded-for'' = None
        \<and> headers req ''x-real-ip'' = None \<and> headers req ''x-client-ip'' = None
        \<longrightarrow> getClientIp req = Inr ''unknown'')"
proof (intro conjI impI)
  assume "direct_address req = Some ''::1''"
  then show "getClientIp req = Inr ''127.0.0.1''"
    by (simp add: getClientIp_def)
next
  assume a: "direct_address req = Some (''::ffff:'' @ v) \<and> v \<noteq> [] \<and> CHR '':'' \<notin> set v"
  have r: "replace_first ''::ffff:'' [] (''::ffff:'' @ v) = v"
    using replace_first_prefix[of "''::ffff:''" "[]" v] by simp
  have s: "startsWith (''::ffff:'' @ v) ''::ffff:''" by (simp add: startsWith_def)
  have n: "v \<noteq> ''::1''" using a by auto
  have t: "takeWhile (\<lambda>c. c \<noteq> CHR '':'') v = v" using a by (auto simp: takeWhile_eq_all_conv)
  have d: "''::ffff:'' @ v \<noteq> ''::1''" by simp
  show "getClientIp req = Inr v"
    unfolding getClientIp_def Let_def using a r s n t d
    by (simp add: truthy_def hd_split_on del: append.simps replace_first.simps)
next
  assume a: "\<not> truthy (direct_address req)
        \<and> headers req ''x-forwarded-for'' = Some (HString ''203.0.113.195, 70.41.3.18'')"
  have f: "trim (hd (split_on CHR '','' ''203.0.113.195, 70.41.3.18'')) = ''203.0.113.195''"
    by (simp add: trim_def is_space_def)
  have c: "hd (split_on CHR '':'' ''203.0.113.195'') = ''203.0.113.195''" by simp
  show "getClientIp req = Inr ''203.0.113.195''"
    unfolding getClientIp_def Let_def using a f c
    by (auto simp: truthy_def split: option.splits simp del: split_on.simps)
next
  assume a: "\<not> truthy (direct_address req) \<and> headers req ''x-forwarded-for'' = None
        \<and> headers req ''x-real-ip'' = None \<and> headers req ''x-client-ip'' = None"
  then show "getClientIp req = Inr ''unknown''"
    unfolding getClientIp_def Let_def
    by (auto simp: truthy_def header_truthy_def header_or_def split: option.splits)
qed

theorem getClientIp_normalizes_witness:
  "getClientIp \<lparr>req_ip = Some ''::1'', connection_remoteAddress = None,
       socket_remoteAddress = None, connection_socket_remoteAddress = None,
       headers = Map.empty\<rparr> = Inr ''127.0.0.1''
   \<and> getClientIp \<lparr>req_ip = Some ''::ffff:192.168.1.100'', connection_remoteAddress = None,
       socket_remoteAddress = None, connection_socket_remoteAddress = None,
       headers = Map.empty\<rparr> = Inr ''192.168.1.100''
   \<and> getClientIp \<lparr>req_ip = None, connection_remoteAddress = None,
       socket_remoteAddress = None, connection_socket_remoteAddress = None,
       headers = [''x-forwarded-for'' \<mapsto> HString ''203.0.113.195, 70.41.3.18'']\<rparr>
         = Inr ''203.0.113.195''
   \<and> getClientIp \<lparr>req_ip = None, connection_remoteAddress = None,
       socket_remoteAddress = None, connection_socket_remoteAddress = None,
       headers = Map.empty\<rparr> = Inr ''unknown''"
  using
    getClientIp_normalizes[of "\<lparr>req_ip = Some ''::1'', connection_remoteAddress = None,
       socket_remoteAddress = None, connection_socket_remoteAddress = None,
       headers = Map.empty\<rparr>" "[]"]
    getClientIp_normalizes[of "\<lparr>req_ip = Some ''::ffff:192.168.1.100'',
       connection_remoteAddress = None,
       socket_remoteAddress = None, connection_socket_remoteAddress = None,
       headers = Map.empty\<rparr>" "''192.168.1.100''"]
    getClientIp_normalizes[of "\<lparr>req_ip = None, connection_remoteAddress = None,
       socket_remoteAddress = None, connection_socket_remoteAddress = None,
       headers = [''x-forwarded-for'' \<mapsto> HString ''203.0.113.195, 70.41.3.18'']\<rparr>" "[]"]
    getClientIp_normalizes[of "\<lparr>req_ip = None, connection_remoteAddress = None,
       socket_remoteAddress = None, connection_socket_remoteAddress = None,
       headers = Map.empty\<rparr>" "[]"]
  by (simp add: direct_address_def js_or_def truthy_def)

text \<open>
  C7. \<open>getClientIp\<close> is meant never to raise. With no direct address and the header
  \<open>x-forwarded-for\<close> present as an empty list, \<open>forwarded[0]\<close> is \<open>undefined\<close> and the
  call of \<open>split\<close> on it throws a \<open>TypeError\<close>: the function raises instead of returning
  \<open>unknown\<close>.
\<close>

theorem getClientIp_empty_forwarded_list_throws:
  "getClientIp \<lparr>req_ip = None, connection_remoteAddress = None,
       socket_remoteAddress = None, connection_socket_remoteAddress = None,
       headers = [''x-forwarded-for'' \<mapsto> HArray []]\<rparr>
     = Inl (TypeError ''Cannot read properties of undefined (reading 'split')'')"
  by (simp add: getClientIp_def direct_address_def js_or_def truthy_def)

theorem getClientIp_empty_forwarded_list_throws_witness:
  "\<not> truthy (direct_address \<lparr>req_ip = None, connection_remoteAddress = None,
       socket_remoteAddress = None, connection_socket_remoteAddress = None,
       headers = [''x-forwarded-for'' \<mapsto> HArray []]\<rparr>)
   \<and> isl (getClientIp \<lparr>req_ip = None, connection_remoteAddress = None,
       socket_remoteAddress = None, connection_socket_remoteAddress = None,
       headers = [''x-forwarded-for'' \<mapsto> HArray []]\<rparr>)"
  using getClientIp_empty_forwarded_list_throws
  by (simp add: direct_address_def js_or_def truthy_def)

section \<open>Proofs: the TTL cache\<close>

lemma getCached_contacted [simp]: "contacted (snd (getCached config key s)) = contacted s"
  by (simp add: getCached_def split: option.splits)

lemma getCached_now [simp]: "now (snd (getCached config key s)) = now s"
  by (simp add: getCached_def split: option.splits)

lemma getCached_cache:
  "cache (snd (getCached config key s)) =
     (if cache_enabled config \<and> (\<exists>e. cache s key = Some e \<and> now s - timestamp e > ttl e)
      then (cache s)(key := None) else cache s)"
  by (auto simp: getCached_def split: option.splits)

lemma axios_get_cache [simp]: "cache (snd (axios_get net url tmo s)) = cache s"
  by (simp add: axios_get_def Let_def)

lemma axios_get_contacted [simp]:
  "contacted (snd (axios_get net url tmo s)) = contacted s @ [(url, tmo)]"
  by (simp add: axios_get_def Let_def)

lemma axios_get_fst [simp]:
  "fst (axios_get net url tmo s) = nth_outcome net s 0 url tmo"
  by (simp add: axios_get_def Let_def nth_outcome_def)

lemma nth_outcome_after [simp]:
  "nth_outcome net (snd (axios_get net url tmo s)) k url' tmo' = nth_outcome net s (Suc k) url' tmo'"
  by (simp add: nth_outcome_def)

section \<open>Proofs: the fallback chains\<close>

lemma public_ip_loop_fail:
  "public_ip_attempt isIP (nth_outcome net s 0 p (api_timeout config)) = None \<Longrightarrow>
   public_ip_loop config isIP net (p # rest) s =
     public_ip_loop config isIP net rest (snd (axios_get net p (api_timeout config) s))"
  by (cases "axios_get net p (api_timeout config) s")
     (auto simp: public_ip_attempt_def split: sum.splits option.splits if_splits
           dest: arg_cong[where f = fst])

lemma public_ip_loop_success:
  "public_ip_attempt isIP (nth_outcome net s 0 p (api_timeout config)) = Some v \<Longrightarrow>
   public_ip_loop config isIP net (p # rest) s =
     (Inr v, setCached config ''public-ip'' v None (snd (axios_get net p (api_timeout config) s)))"
  by (cases "axios_get net p (api_timeout config) s")
     (auto simp: public_ip_attempt_def split: sum.splits option.splits if_splits
           dest: arg_cong[where f = fst])

lemma location_loop_fail:
  "location_attempt (nth_outcome net s 0 (location_url p ip) (api_timeout config)) = None \<Longrightarrow>
   location_loop config net ip key (p # rest) s =
     location_loop config net ip key rest
       (snd (axios_get net (location_url p ip) (api_timeout config) s))"
  by (cases "axios_get net (location_url p ip) (api_timeout config) s")
     (auto simp: location_attempt_def Let_def split: sum.splits option.splits if_splits
           dest: arg_cong[where f = fst])

lemma location_loop_success:
  "location_attempt (nth_outcome net s 0 (location_url p ip) (api_timeout config)) = Some d \<Longrightarrow>
   location_loop config net ip key (p # rest) s =
     (Inr d, setCached config key d None
               (snd (axios_get net (location_url p ip) (api_timeout config) s)))"
  by (cases "axios_get net (location_url p ip) (api_timeout config) s")
     (auto simp: location_attempt_def Let_def split: sum.splits option.splits if_splits
           dest: arg_cong[where f = fst])

lemma nth_outcome_getCached [simp]:
  "nth_outcome net (snd (getCached config key s)) k url tmo = nth_outcome net s k url tmo"
  by (simp add: nth_outcome_def)

lemma setCached_contacted [simp]: "contacted (setCached config key v t s) = contacted s"
  by (simp add: setCached_def)

lemma setCached_now [simp]: "now (setCached config key v t s) = now s"
  by (simp add: setCached_def)

lemma setCached_cache:
  "cache (setCached config key v None s) =
     (if cache_enabled config
      then (cache s)(key \<mapsto> \<lparr>data = v, timestamp = now s, ttl = cache_ttl config\<rparr>)
      else cache s)"
  by (simp add: setCached_def)

lemma getPublicIp_miss:
  "\<not> cache_hit_string config ''public-ip'' s \<Longrightarrow>
   getPublicIp config isIP net s =
     public_ip_loop config isIP net ip_providers (snd (getCached config ''public-ip'' s))"
  by (cases "getCached config ''public-ip'' s")
     (auto simp: getPublicIp_def cache_hit_string_def truthy_def split: option.splits)

lemma getLocation_miss:
  "resolveTargetIp config net ip s = (Inr targetIp, s1) \<Longrightarrow>
   LocationManager_isValidIp (js_String targetIp) \<Longrightarrow>
   \<not> cache_hit_json config (''location-'' @ js_String targetIp) s1 \<Longrightarrow>
   getLocation config net ip s =
     location_loop config net ip (''location-'' @ js_String targetIp) location_providers
       (snd (getCached config (''location-'' @ js_String targetIp) s1))"
  by (cases "getCached config (''location-'' @ js_String targetIp) s1")
     (auto simp: getLocation_def cache_hit_json_def split: option.splits)

text \<open>
  C1, as amended. On a resolve call of the public-address or of the geolocation kind that
  finds no usable cache entry, the providers are contacted one at a time in their configured
  order: when the attempt on the first provider fails (transport error, no candidate in the
  body, invalid candidate) and the attempt on the second yields a valid candidate, the
  requests made by the call are exactly the one to the first and then the one to the second
  provider, the third is never contacted, and the value returned is the second provider's
  candidate. When the cache is enabled that value is stored under the resource's cache
  key, stamped with the clock of that moment and the configured TTL; when the cache is
  disabled nothing is stored and the cache stays as it was. For the geolocation kind the
  requests counted are those after the target address is known (\<open>resolveTargetIp\<close> makes
  one request of its own when the caller gives no address).
\<close>

theorem fallback_order:
  "(\<not> cache_hit_string config ''public-ip'' s
      \<and> public_ip_attempt isIP
           (nth_outcome net s 0 ''https://api.ipify.org?format=json'' (api_timeout config)) = None
      \<and> public_ip_attempt isIP
           (nth_outcome net s 1 ''https://api64.ipify.org?format=json'' (api_timeout config)) = Some v
    \<longrightarrow> (case getPublicIp config isIP net s of
           (r, s') \<Rightarrow>
             r = Inr v
             \<and> contacted s' = contacted s
                  @ [(''https://api.ipify.org?format=json'', api_timeout config),
                     (''https://api64.ipify.org?format=json'', api_timeout config)]
             \<and> (cache_enabled config \<longrightarrow>
                  cache s' ''public-ip''
                    = Some \<lparr>data = v, timestamp = now s', ttl = cache_ttl config\<rparr>)
             \<and> (\<not> cache_enabled config \<longrightarrow> cache s' = cache s)))
   \<and> (resolveTargetIp config net ip s0 = (Inr targetIp, s1)
      \<and> LocationManager_isValidIp (js_String targetIp)
      \<and> \<not> cache_hit_json config (''location-'' @ js_String targetIp) s1
      \<and> location_attempt
           (nth_outcome net s1 0 (location_url ''https://ipapi.co'' ip) (api_timeout config)) = None
      \<and> location_attempt
           (nth_outcome net s1 1 (location_url ''https://ipwho.is'' ip) (api_timeout config)) = Some d
    \<longrightarrow> (case getLocation config net ip s0 of
           (r, s') \<Rightarrow>
             r = Inr d
             \<and> contacted s' = contacted s1
                  @ [(location_url ''https://ipapi.co'' ip, api_timeout config),
                     (location_url ''https://ipwho.is'' ip, api_timeout config)]
             \<and> (cache_enabled config \<longrightarrow>
                  cache s' (''location-'' @ js_String targetIp)
                    = Some \<lparr>data = d, timestamp = now s', ttl = cache_ttl config\<rparr>)
             \<and> (\<not> cache_enabled config \<longrightarrow> cache s' = cache s1)))"
proof (intro conjI impI)
  let ?A = "''https://api.ipify.org?format=json''"
  let ?B = "''https://api64.ipify.org?format=json''"
  let ?t = "api_timeout config"
  assume h: "\<not> cache_hit_string config ''public-ip'' s
      \<and> public_ip_attempt isIP (nth_outcome net s 0 ?A ?t) = None
      \<and> public_ip_attempt isIP (nth_outcome net s 1 ?B ?t) = Some v"
  let ?s0 = "snd (getCached config ''public-ip'' s)"
  let ?s1 = "snd (axios_get net ?A ?t ?s0)"
  let ?s2 = "snd (axios_get net ?B ?t ?s1)"
  have a: "public_ip_attempt isIP (nth_outcome net ?s0 0 ?A ?t) = None" using h by simp
  have b: "public_ip_attempt isIP (nth_outcome net ?s1 0 ?B ?t) = Some v" using h by simp
  have "getPublicIp config isIP net s = public_ip_loop config isIP net ip_providers ?s0"
    using h by (simp add: getPublicIp_miss)
  also have "\<dots> = public_ip_loop config isIP net [?B, ''https://icanhazip.com''] ?s1"
    unfolding ip_providers_def by (rule public_ip_loop_fail[OF a])
  also have "\<dots> = (Inr v, setCached config ''public-ip'' v None ?s2)"
    by (rule public_ip_loop_success[OF b])
  finally have r: "getPublicIp config isIP net s = (Inr v, setCached config ''public-ip'' v None ?s2)" .
  have off: "cache ?s0 = cache s" if "\<not> cache_enabled config"
    using that by (simp add: getCached_cache)
  show "case getPublicIp config isIP net s of
           (r, s') \<Rightarrow>
             r = Inr v
             \<and> contacted s' = contacted s @ [(?A, ?t), (?B, ?t)]
             \<and> (cache_enabled config \<longrightarrow>
                  cache s' ''public-ip''
                    = Some \<lparr>data = v, timestamp = now s', ttl = cache_ttl config\<rparr>)
             \<and> (\<not> cache_enabled config \<longrightarrow> cache s' = cache s)"
    unfolding r using off by (simp add: setCached_cache)
next
  let ?A = "location_url ''https://ipapi.co'' ip"
  let ?B = "location_url ''https://ipwho.is'' ip"
  let ?t = "api_timeout config"
  let ?key = "''location-'' @ js_String targetIp"
  assume h: "resolveTargetIp config net ip s0 = (Inr targetIp, s1)
      \<and> LocationManager_isValidIp (js_String targetIp)
      \<and> \<not> cache_hit_json config ?key s1
      \<and> location_attempt (nth_outcome net s1 0 ?A ?t) = None
      \<and> location_attempt (nth_outcome net s1 1 ?B ?t) = Some d"
  let ?s2 = "snd (getCached config ?key s1)"
  let ?s3 = "snd (axios_get net ?A ?t ?s2)"
  let ?s4 = "snd (axios_get net ?B ?t ?s3)"
  have a: "location_attempt (nth_outcome net ?s2 0 ?A ?t) = None" using h by simp
  have b: "location_attempt (nth_outcome net ?s3 0 ?B ?t) = Some d" using h by simp
  have "getLocation config net ip s0 = location_loop config net ip ?key location_providers ?s2"
    using h by (intro getLocation_miss) simp_all
  also have "\<dots> = location_loop config net ip ?key [''https://ipwho.is'', ''https://ipinfo.io''] ?s3"
    unfolding location_providers_def by (rule location_loop_fail[OF a])
  also have "\<dots> = (Inr d, setCached config ?key d None ?s4)"
    by (rule location_loop_success[OF b])
  finally have r: "getLocation config net ip s0 = (Inr d, setCached config ?key d None ?s4)" .
  have off: "cache ?s2 = cache s1" if "\<not> cache_enabled config"
    using that by (simp add: getCached_cache)
  show "case getLocation config net ip s0 of
           (r, s') \<Rightarrow>
             r = Inr d
             \<and> contacted s' = contacted s1 @ [(?A, ?t), (?B, ?t)]
             \<and> (cache_enabled config \<longrightarrow>
                  cache s' ?key = Some \<lparr>data = d, timestamp = now s', ttl = cache_ttl config\<rparr>)
             \<and> (\<not> cache_enabled config \<longrightarrow> cache s' = cache s1)"
    unfolding r using off by (simp add: setCached_cache)
qed

theorem fallback_order_witness:
  "(case getPublicIp mockConfig net_module_unavailable
           (first_rejected_then (JObj [(''ip'', JStr ''192.168.1.2'')])) fresh of
      (r, s') \<Rightarrow>
        r = Inr ''192.168.1.2''
        \<and> contacted s' = [(''https://api.ipify.org?format=json'', 10000),
                          (''https://api64.ipify.org?format=json'', 10000)]
        \<and> cache s' ''public-ip''
             = Some \<lparr>data = ''192.168.1.2'', timestamp = now s', ttl = 300000\<rparr>)
   \<and> (case getLocation mockConfig (first_rejected_then mockLocationData)
              (Some ''192.168.1.1'') fresh of
      (r, s') \<Rightarrow>
        r = Inr mockLocationData
        \<and> contacted s' = [(''https://ipapi.co/192.168.1.1/json/'', 10000),
                          (''https://ipwho.is/192.168.1.1/json/'', 10000)]
        \<and> cache s' ''location-192.168.1.1''
             = Some \<lparr>data = mockLocationData, timestamp = now s', ttl = 300000\<rparr>)"
proof -
  let ?net = "first_rejected_then (JObj [(''ip'', JStr ''192.168.1.2'')])"
  have 1: "\<not> cache_hit_string mockConfig ''public-ip'' fresh" by code_simp
  have 2: "public_ip_attempt net_module_unavailable
             (nth_outcome ?net (fresh :: string state) 0 ''https://api.ipify.org?format=json''
                (api_timeout mockConfig)) = None" by code_simp
  have 3: "public_ip_attempt net_module_unavailable
             (nth_outcome ?net (fresh :: string state) 1 ''https://api64.ipify.org?format=json''
                (api_timeout mockConfig)) = Some ''192.168.1.2''" by code_simp
  let ?lnet = "first_rejected_then mockLocationData"
  have 4: "resolveTargetIp mockConfig ?lnet (Some ''192.168.1.1'') fresh
             = (Inr (Some (JStr ''192.168.1.1'')), fresh)"
    by (simp add: resolveTargetIp_def)
  have 5: "LocationManager_isValidIp (js_String (Some (JStr ''192.168.1.1'')))" by code_simp
  have 6: "\<not> cache_hit_json mockConfig (''location-'' @ js_String (Some (JStr ''192.168.1.1''))) fresh"
    by code_simp
  have 7: "location_attempt (nth_outcome ?lnet (fresh :: json state) 0
             (location_url ''https://ipapi.co'' (Some ''192.168.1.1'')) (api_timeout mockConfig)) = None"
    by code_simp
  have 8: "location_attempt (nth_outcome ?lnet (fresh :: json state) 1
             (location_url ''https://ipwho.is'' (Some ''192.168.1.1'')) (api_timeout mockConfig))
             = Some mockLocationData"
    by code_simp
  note A = mp[OF conjunct1[OF fallback_order], OF conjI[OF 1 conjI[OF 2 3]]]
  note B = mp[OF conjunct2[OF fallback_order], OF conjI[OF 4 conjI[OF 5 conjI[OF 6 conjI[OF 7 8]]]]]
  have js: "js_String (Some (JStr ''192.168.1.1'')) = ''192.168.1.1''" by (simp add: js_String_def)
  show ?thesis
    using A B unfolding js
    by (simp add: fresh_def mockConfig_def location_url_def split_beta)
qed

theorem fallback_order_cache_disabled_counterexample:
  "\<not> cache_hit_string noCacheConfig ''public-ip'' fresh
   \<and> public_ip_attempt net_module_unavailable
        (nth_outcome (first_rejected_then (JObj [(''ip'', JStr ''192.168.1.2'')]))
           (fresh :: string state) 0 ''https://api.ipify.org?format=json''
           (api_timeout noCacheConfig)) = None
   \<and> public_ip_attempt net_module_unavailable
        (nth_outcome (first_rejected_then (JObj [(''ip'', JStr ''192.168.1.2'')]))
           (fresh :: string state) 1 ''https://api64.ipify.org?format=json''
           (api_timeout noCacheConfig)) = Some ''192.168.1.2''
   \<and> fst (getPublicIp noCacheConfig net_module_unavailable
             (first_rejected_then (JObj [(''ip'', JStr ''192.168.1.2'')])) fresh)
        = Inr ''192.168.1.2''
   \<and> cache (snd (getPublicIp noCacheConfig net_module_unavailable
             (first_rejected_then (JObj [(''ip'', JStr ''192.168.1.2'')])) fresh)) ''public-ip''
        = None"
  by code_simp

lemma public_ip_loop_all_fail:
  "(\<forall>i<length ps. public_ip_attempt isIP (nth_outcome net s i (ps ! i) (api_timeout config)) = None)
   \<Longrightarrow> fst (public_ip_loop config isIP net ps s) = Inl (Error ''All IP service providers failed'')
     \<and> cache (snd (public_ip_loop config isIP net ps s)) = cache s
     \<and> contacted (snd (public_ip_loop config isIP net ps s))
          = contacted s @ map (\<lambda>p. (p, api_timeout config)) ps"
proof (induction ps arbitrary: s)
  case Nil
  then show ?case by simp
next
  case (Cons p ps)
  let ?s1 = "snd (axios_get net p (api_timeout config) s)"
  have h0: "public_ip_attempt isIP (nth_outcome net s 0 p (api_timeout config)) = None"
    using Cons.prems by fastforce
  have hs: "\<forall>i<length ps. public_ip_attempt isIP
              (nth_outcome net ?s1 i (ps ! i) (api_timeout config)) = None"
    using Cons.prems by fastforce
  show ?case
    unfolding public_ip_loop_fail[OF h0] using Cons.IH[OF hs] by simp
qed

lemma location_loop_all_fail:
  "(\<forall>i<length ps. location_attempt
        (nth_outcome net s i (location_url (ps ! i) ip) (api_timeout config)) = None)
   \<Longrightarrow> fst (location_loop config net ip key ps s) = Inl (Error ''All geolocation providers failed'')
     \<and> cache (snd (location_loop config net ip key ps s)) = cache s
     \<and> contacted (snd (location_loop config net ip key ps s))
          = contacted s @ map (\<lambda>p. (location_url p ip, api_timeout config)) ps"
proof (induction ps arbitrary: s)
  case Nil
  then show ?case by simp
next
  case (Cons p ps)
  let ?s1 = "snd (axios_get net (location_url p ip) (api_timeout config) s)"
  have h0: "location_attempt (nth_outcome net s 0 (location_url p ip) (api_timeout config)) = None"
    using Cons.prems by fastforce
  have hs: "\<forall>i<length ps. location_attempt
              (nth_outcome net ?s1 i (location_url (ps ! i) ip) (api_timeout config)) = None"
    using Cons.prems by fastforce
  show ?case
    unfolding location_loop_fail[OF h0] using Cons.IH[OF hs] by simp
qed



lemma getCached_cache_le:
  "cache (snd (getCached config key s)) k = Some e \<Longrightarrow> cache s k = Some e"
  by (auto simp: getCached_cache split: if_splits)

text \<open>
  C2, as amended. On a resolve call that finds no usable cache entry and in which the
  attempt on every provider fails, \<open>getPublicIp\<close> raises
  \<open>All IP service providers failed\<close> and \<open>getLocation\<close> raises
  \<open>All geolocation providers failed\<close>, and no value is stored: the cache is as the initial
  lookup left it. Every entry it holds was there before, every key other than the
  resource's own is untouched, and unless the resource's key held an entry older than its
  TTL (which the lookup deletes) the cache is unchanged.
\<close>

theorem exhaustion_error_nothing_stored:
  "(\<not> cache_hit_string config ''public-ip'' s
      \<and> (\<forall>i<length ip_providers.
            public_ip_attempt isIP
              (nth_outcome net s i (ip_providers ! i) (api_timeout config)) = None)
    \<longrightarrow> (case getPublicIp config isIP net s of
           (r, s') \<Rightarrow>
             r = Inl (Error ''All IP service providers failed'')
             \<and> cache s' = cache (snd (getCached config ''public-ip'' s))
             \<and> (\<forall>k e. cache s' k = Some e \<longrightarrow> cache s k = Some e)
             \<and> (\<forall>k. k \<noteq> ''public-ip'' \<longrightarrow> cache s' k = cache s k)
             \<and> ((\<forall>e. cache s ''public-ip'' = Some e \<longrightarrow> now s - timestamp e \<le> ttl e)
                  \<longrightarrow> cache s' = cache s)))
   \<and> (resolveTargetIp config net ip s0 = (Inr targetIp, s1)
      \<and> LocationManager_isValidIp (js_String targetIp)
      \<and> \<not> cache_hit_json config (''location-'' @ js_String targetIp) s1
      \<and> (\<forall>i<length location_providers.
            location_attempt
              (nth_outcome net s1 i (location_url (location_providers ! i) ip)
                 (api_timeout config)) = None)
    \<longrightarrow> (case getLocation config net ip s0 of
           (r, s') \<Rightarrow>
             r = Inl (Error ''All geolocation providers failed'')
             \<and> cache s' = cache (snd (getCached config (''location-'' @ js_String targetIp) s1))
             \<and> (\<forall>k e. cache s' k = Some e \<longrightarrow> cache s1 k = Some e)
             \<and> (\<forall>k. k \<noteq> ''location-'' @ js_String targetIp \<longrightarrow> cache s' k = cache s1 k)
             \<and> ((\<forall>e. cache s1 (''location-'' @ js_String targetIp) = Some e
                        \<longrightarrow> now s1 - timestamp e \<le> ttl e)
                  \<longrightarrow> cache s' = cache s1)))"
proof (intro conjI impI)
  let ?s0 = "snd (getCached config ''public-ip'' s)"
  assume h: "\<not> cache_hit_string config ''public-ip'' s
      \<and> (\<forall>i<length ip_providers.
            public_ip_attempt isIP
              (nth_outcome net s i (ip_providers ! i) (api_timeout config)) = None)"
  then have f: "\<forall>i<length ip_providers.
            public_ip_attempt isIP
              (nth_outcome net ?s0 i (ip_providers ! i) (api_timeout config)) = None"
    by simp
  have g: "getPublicIp config isIP net s = public_ip_loop config isIP net ip_providers ?s0"
    using h by (simp add: getPublicIp_miss)
  note L = public_ip_loop_all_fail[OF f]
  have le: "\<forall>k e. cache ?s0 k = Some e \<longrightarrow> cache s k = Some e"
    using getCached_cache_le by fast
  have other: "\<forall>k. k \<noteq> ''public-ip'' \<longrightarrow> cache ?s0 k = cache s k"
    by (simp add: getCached_cache)
  have live: "cache ?s0 = cache s"
    if "\<forall>e. cache s ''public-ip'' = Some e \<longrightarrow> now s - timestamp e \<le> ttl e"
    using that by (auto simp: getCached_cache)
  show "case getPublicIp config isIP net s of
           (r, s') \<Rightarrow>
             r = Inl (Error ''All IP service providers failed'')
             \<and> cache s' = cache ?s0
             \<and> (\<forall>k e. cache s' k = Some e \<longrightarrow> cache s k = Some e)
             \<and> (\<forall>k. k \<noteq> ''public-ip'' \<longrightarrow> cache s' k = cache s k)
             \<and> ((\<forall>e. cache s ''public-ip'' = Some e \<longrightarrow> now s - timestamp e \<le> ttl e)
                  \<longrightarrow> cache s' = cache s)"
    unfolding g split_beta
  proof (intro conjI)
    show "\<forall>k e. cache (snd (public_ip_loop config isIP net ip_providers ?s0)) k = Some e
            \<longrightarrow> cache s k = Some e"
      using L le by metis
    show "(\<forall>e. cache s ''public-ip'' = Some e \<longrightarrow> now s - timestamp e \<le> ttl e)
            \<longrightarrow> cache (snd (public_ip_loop config isIP net ip_providers ?s0)) = cache s"
      using L live by metis
    show "\<forall>k. k \<noteq> ''public-ip''
            \<longrightarrow> cache (snd (public_ip_loop config isIP net ip_providers ?s0)) k = cache s k"
      using L other by metis
  qed (use L in simp_all)
next
  let ?key = "''location-'' @ js_String targetIp"
  let ?s2 = "snd (getCached config ?key s1)"
  assume h: "resolveTargetIp config net ip s0 = (Inr targetIp, s1)
      \<and> LocationManager_isValidIp (js_String targetIp)
      \<and> \<not> cache_hit_json config ?key s1
      \<and> (\<forall>i<length location_providers.
            location_attempt
              (nth_outcome net s1 i (location_url (location_providers ! i) ip)
                 (api_timeout config)) = None)"
  then have f: "\<forall>i<length location_providers.
            location_attempt
              (nth_outcome net ?s2 i (location_url (location_providers ! i) ip)
                 (api_timeout config)) = None"
    by simp
  have g: "getLocation config net ip s0 = location_loop config net ip ?key location_providers ?s2"
    using h by (intro getLocation_miss) simp_all
  note L = location_loop_all_fail[OF f, of ?key]
  have le: "\<forall>k e. cache ?s2 k = Some e \<longrightarrow> cache s1 k = Some e"
    using getCached_cache_le by fast
  have other: "\<forall>k. k \<noteq> ?key \<longrightarrow> cache ?s2 k = cache s1 k"
    by (simp add: getCached_cache)
  have live: "cache ?s2 = cache s1"
    if "\<forall>e. cache s1 ?key = Some e \<longrightarrow> now s1 - timestamp e \<le> ttl e"
    using that by (auto simp: getCached_cache)
  show "case getLocation config net ip s0 of
           (r, s') \<Rightarrow>
             r = Inl (Error ''All geolocation providers failed'')
             \<and> cache s' = cache ?s2
             \<and> (\<forall>k e. cache s' k = Some e \<longrightarrow> cache s1 k = Some e)
             \<and> (\<forall>k. k \<noteq> ?key \<longrightarrow> cache s' k = cache s1 k)
             \<and> ((\<forall>e. cache s1 ?key = Some e \<longrightarrow> now s1 - timestamp e \<le> ttl e)
                  \<longrightarrow> cache s' = cache s1)"
    unfolding g split_beta
  proof (intro conjI)
    show "\<forall>k e. cache (snd (location_loop config net ip ?key location_providers ?s2)) k = Some e
            \<longrightarrow> cache s1 k = Some e"
      using L le by metis
    show "(\<forall>e. cache s1 ?key = Some e \<longrightarrow> now s1 - timestamp e \<le> ttl e)
            \<longrightarrow> cache (snd (location_loop config net ip ?key location_providers ?s2)) = cache s1"
      using L live by metis
    show "\<forall>k. k \<noteq> ?key
            \<longrightarrow> cache (snd (location_loop config net ip ?key location_providers ?s2)) k = cache s1 k"
      using L other by metis
  qed (use L in simp_all)
qed



theorem exhaustion_error_nothing_stored_witness:
  "(case getPublicIp mockConfig net_module_unavailable always_rejected fresh of
      (r, s') \<Rightarrow> r = Inl (Error ''All IP service providers failed'')
                 \<and> cache s' = cache (fresh :: string state))
   \<and> (case getLocation mockConfig always_rejected (Some ''192.168.1.1'') fresh of
      (r, s') \<Rightarrow> r = Inl (Error ''All geolocation providers failed'')
                 \<and> cache s' = cache (fresh :: json state))"
proof -
  have 1: "\<not> cache_hit_string mockConfig ''public-ip'' fresh" by code_simp
  have 2: "\<forall>i<length ip_providers.
            public_ip_attempt net_module_unavailable
              (nth_outcome always_rejected (fresh :: string state) i (ip_providers ! i)
                 (api_timeout mockConfig)) = None"
    by (simp add: nth_outcome_def always_rejected_def public_ip_attempt_def)
  have 4: "resolveTargetIp mockConfig always_rejected (Some ''192.168.1.1'') fresh
             = (Inr (Some (JStr ''192.168.1.1'')), fresh)"
    by (simp add: resolveTargetIp_def)
  have 5: "LocationManager_isValidIp (js_String (Some (JStr ''192.168.1.1'')))" by code_simp
  have 6: "\<not> cache_hit_json mockConfig (''location-'' @ js_String (Some (JStr ''192.168.1.1''))) fresh"
    by code_simp
  have 7: "\<forall>i<length location_providers.
            location_attempt
              (nth_outcome always_rejected (fresh :: json state) i
                 (location_url (location_providers ! i) (Some ''192.168.1.1''))
                 (api_timeout mockConfig)) = None"
    by (simp add: nth_outcome_def always_rejected_def location_attempt_def)
  note A = mp[OF conjunct1[OF exhaustion_error_nothing_stored], OF conjI[OF 1 2]]
  note B = mp[OF conjunct2[OF exhaustion_error_nothing_stored],
              OF conjI[OF 4 conjI[OF 5 conjI[OF 6 7]]]]
  have e: "cache (fresh :: 'a state) k = None" for k
    by (simp add: fresh_def)
  have A': "fst (getPublicIp mockConfig net_module_unavailable always_rejected fresh)
              = Inl (Error ''All IP service providers failed'')
            \<and> cache (snd (getPublicIp mockConfig net_module_unavailable always_rejected fresh))
              = cache (fresh :: string state)"
    using A by (auto simp: split_beta e)
  have B': "fst (getLocation mockConfig always_rejected (Some ''192.168.1.1'') fresh)
              = Inl (Error ''All geolocation providers failed'')
            \<and> cache (snd (getLocation mockConfig always_rejected (Some ''192.168.1.1'') fresh))
              = cache (fresh :: json state)"
    using B by (auto simp: split_beta e)
  show ?thesis
    using A' B' by (simp add: split_beta)
qed

theorem exhaustion_stale_entry_counterexample:
  "\<not> cache_hit_string mockConfig ''public-ip'' stale
   \<and> public_ip_attempt net_module_unavailable
        (nth_outcome always_rejected stale 0 ''https://api.ipify.org?format=json''
           (api_timeout mockConfig)) = None
   \<and> public_ip_attempt net_module_unavailable
        (nth_outcome always_rejected stale 1 ''https://api64.ipify.org?format=json''
           (api_timeout mockConfig)) = None
   \<and> public_ip_attempt net_module_unavailable
        (nth_outcome always_rejected stale 2 ''https://icanhazip.com''
           (api_timeout mockConfig)) = None
   \<and> fst (getPublicIp mockConfig net_module_unavailable always_rejected stale)
        = Inl (Error ''All IP service providers failed'')
   \<and> cache stale ''public-ip''
        = Some \<lparr>data = ''192.168.1.1'', timestamp = 1000, ttl = 300000\<rparr>
   \<and> cache (snd (getPublicIp mockConfig net_module_unavailable always_rejected stale))
        ''public-ip'' = None
   \<and> cache (snd (getPublicIp mockConfig net_module_unavailable always_rejected stale))
        \<noteq> cache stale"
proof -
  have a: "cache stale ''public-ip''
        = Some \<lparr>data = ''192.168.1.1'', timestamp = 1000, ttl = 300000\<rparr>"
    by (simp add: stale_def)
  have b: "cache (snd (getPublicIp mockConfig net_module_unavailable always_rejected stale))
        ''public-ip'' = None"
    by code_simp
  have c: "cache (snd (getPublicIp mockConfig net_module_unavailable always_rejected stale))
        \<noteq> cache stale"
    using a b by (metis option.distinct(1))
  have d: "\<not> cache_hit_string mockConfig ''public-ip'' stale" by code_simp
  have e: "fst (getPublicIp mockConfig net_module_unavailable always_rejected stale)
        = Inl (Error ''All IP service providers failed'')" by code_simp
  have f: "public_ip_attempt net_module_unavailable
        (nth_outcome always_rejected stale k url (api_timeout mockConfig)) = None" for k url
    by (simp add: nth_outcome_def always_rejected_def public_ip_attempt_def)
  show ?thesis using a b c d e f by simp
qed

section \<open>Proofs: cache round trip\<close>

text \<open>
  C3, as amended. With the cache enabled and a configured TTL that is not negative:
  \<open>setCached(k, v)\<close> followed at once by \<open>getCached(k)\<close> returns \<open>v\<close> and leaves the
  entry in place. With the cache enabled, whatever the TTL: an entry whose age
  \<open>now - timestamp\<close> is strictly greater than its TTL makes \<open>getCached\<close> return absent and
  is deleted from the map by that very lookup; an entry whose age is at most its TTL is
  returned and the cache is left as it is.
\<close>

theorem cache_round_trip_lazy_expiry:
  "cache_enabled config \<Longrightarrow>
   (0 \<le> cache_ttl config \<longrightarrow>
      getCached config k (setCached config k v None s)
        = (Some v, setCached config k v None s))
   \<and> (cache s k = Some entry \<and> now s - timestamp entry > ttl entry \<longrightarrow>
        getCached config k s = (None, s\<lparr>cache := (cache s)(k := None)\<rparr>)
        \<and> cache (snd (getCached config k s)) k = None)
   \<and> (cache s k = Some entry \<and> now s - timestamp entry \<le> ttl entry \<longrightarrow>
        getCached config k s = (Some (data entry), s))"
  by (simp add: getCached_def setCached_def)

theorem cache_round_trip_lazy_expiry_witness:
  "cache_enabled mockConfig \<and> 0 \<le> cache_ttl mockConfig
   \<and> fst (getCached mockConfig ''public-ip''
            (setCached mockConfig ''public-ip'' ''192.168.1.1'' None fresh)) = Some ''192.168.1.1''
   \<and> cache stale ''public-ip''
        = Some \<lparr>data = ''192.168.1.1'', timestamp = 1000, ttl = 300000\<rparr>
   \<and> getCached mockConfig ''public-ip'' stale
        = (None, stale\<lparr>cache := (cache stale)(''public-ip'' := None)\<rparr>)
   \<and> getCached mockConfig ''public-ip'' (stale\<lparr>now := 301000\<rparr>)
        = (Some ''192.168.1.1'', stale\<lparr>now := 301000\<rparr>)"
proof -
  have en: "cache_enabled mockConfig" by (simp add: mockConfig_def)
  have t: "0 \<le> cache_ttl mockConfig" by (simp add: mockConfig_def)
  have c: "cache stale ''public-ip''
        = Some \<lparr>data = ''192.168.1.1'', timestamp = 1000, ttl = 300000\<rparr>"
    by (simp add: stale_def)
  have c': "cache (stale\<lparr>now := 301000\<rparr>) ''public-ip''
        = Some \<lparr>data = ''192.168.1.1'', timestamp = 1000, ttl = 300000\<rparr>"
    by (simp add: stale_def)
  have old: "now stale - timestamp \<lparr>data = ''192.168.1.1'', timestamp = 1000, ttl = 300000\<rparr>
               > ttl \<lparr>data = ''192.168.1.1'', timestamp = 1000, ttl = 300000\<rparr>"
    by (simp add: stale_def)
  have young: "now (stale\<lparr>now := 301000\<rparr>)
                 - timestamp \<lparr>data = ''192.168.1.1'', timestamp = 1000, ttl = 300000\<rparr>
               \<le> ttl \<lparr>data = ''192.168.1.1'', timestamp = 1000, ttl = 300000\<rparr>"
    by simp
  note T1 = cache_round_trip_lazy_expiry[OF en, of "''public-ip''" "''192.168.1.1''" fresh,
              THEN conjunct1, THEN mp, OF t]
  note T2 = cache_round_trip_lazy_expiry[OF en, of "''public-ip''" _ stale,
              THEN conjunct2, THEN conjunct1, THEN mp, OF conjI[OF c old], THEN conjunct1]
  note T3 = cache_round_trip_lazy_expiry[OF en, of "''public-ip''" _ "stale\<lparr>now := 301000\<rparr>",
              THEN conjunct2, THEN conjunct2, THEN mp, OF conjI[OF c' young]]
  show ?thesis using en t c T1 T2 T3 by simp
qed

theorem cache_round_trip_negative_ttl_counterexample:
  "cache_enabled (mockConfig\<lparr>cache_ttl := - 1\<rparr>)
   \<and> fst (getCached (mockConfig\<lparr>cache_ttl := - 1\<rparr>) ''public-ip''
            (setCached (mockConfig\<lparr>cache_ttl := - 1\<rparr>) ''public-ip'' ''192.168.1.1'' None fresh))
        = None
   \<and> cache (snd (getCached (mockConfig\<lparr>cache_ttl := - 1\<rparr>) ''public-ip''
            (setCached (mockConfig\<lparr>cache_ttl := - 1\<rparr>) ''public-ip'' ''192.168.1.1'' None fresh)))
        ''public-ip'' = None"
  by code_simp

section \<open>Proofs: aggregation\<close>

text \<open>
  C9, as amended. Neither aggregation raises; both return an \<open>ApiResponse\<close>. The health
  check of a manager turns a rejected request into the boolean \<open>false\<close> and drops the
  reason, so \<open>NetworkService.healthCheck\<close> answers \<open>success = true\<close>, with one boolean per
  kind (false for the failing kind, true for the succeeding one) and \<open>error = null\<close>: the
  failure reason is not preserved. \<open>getFullNetworkInfo\<close>, when one of the public address
  and the location fails and the other succeeds, answers \<open>success = false\<close>, \<open>data = null\<close>
  (no partial data) and \<open>error\<close> the message of the failing kind's error.
\<close>

theorem aggregation_returns_responses:
  "fst (IpManager_healthCheck net s)
      = (\<not> isl (nth_outcome net s 0 ''https://api.ipify.org'' 5000))
   \<and> fst (LocationManager_healthCheck net s)
      = (\<not> isl (nth_outcome net s 0 ''https://ipapi.co/json/'' 5000))
   \<and> healthCheck (t1, Inr ipOk) (t2, Inr geoOk) clock
      = Inr \<lparr>success = True,
             resp_data = Some \<lparr>ipServices = ipOk, geolocationServices = geoOk,
                                networkInfo = True\<rparr>,
             resp_error = None, resp_timestamp = clock\<rparr>
   \<and> getFullNetworkInfo (t1, Inl e) (t2, Inr loc) (Inr ifs) (Inr ext) clock
      = Inr \<lparr>success = False, resp_data = None,
             resp_error = Some (error_message e ''Unknown error occurred''),
             resp_timestamp = clock\<rparr>
   \<and> getFullNetworkInfo (t1, Inr pip) (t2, Inl e) (Inr ifs) (Inr ext) clock
      = Inr \<lparr>success = False, resp_data = None,
             resp_error = Some (error_message e ''Unknown error occurred''),
             resp_timestamp = clock\<rparr>
   \<and> \<not> isl (getFullNetworkInfo publicIpP locationP interfacesR externalAddressesR clock)
   \<and> \<not> isl (healthCheck ipP geoP clock)"
proof (intro conjI)
  show "fst (IpManager_healthCheck net s)
      = (\<not> isl (nth_outcome net s 0 ''https://api.ipify.org'' 5000))"
    by (cases "axios_get net ''https://api.ipify.org'' 5000 s")
       (auto simp: IpManager_healthCheck_def split: sum.splits dest: arg_cong[where f = fst])
  show "fst (LocationManager_healthCheck net s)
      = (\<not> isl (nth_outcome net s 0 ''https://ipapi.co/json/'' 5000))"
    by (cases "axios_get net ''https://ipapi.co/json/'' 5000 s")
       (auto simp: LocationManager_healthCheck_def split: sum.splits dest: arg_cong[where f = fst])
  show "\<not> isl (getFullNetworkInfo publicIpP locationP interfacesR externalAddressesR clock)"
    by (simp add: getFullNetworkInfo_def split: sum.splits)
  show "\<not> isl (healthCheck ipP geoP clock)"
    by (simp add: healthCheck_def split: sum.splits)
qed (simp_all add: healthCheck_def getFullNetworkInfo_def promise_all2_def)

theorem aggregation_counterexample:
  "resp_error (projr (healthCheck (40, Inr False) (25, Inr True) 1040)) = None
   \<and> resp_data (projr (healthCheck (40, Inr False) (25, Inr True) 1040))
        = Some \<lparr>ipServices = False, geolocationServices = True, networkInfo = True\<rparr>
   \<and> \<not> isl (getFullNetworkInfo (40, Inl (Error ''IP service down''))
               (25, Inr mockLocationData) (Inr ()) (Inr [''192.168.1.100'']) 1040)
   \<and> getFullNetworkInfo (40, Inl (Error ''IP service down''))
               (25, Inr mockLocationData) (Inr ()) (Inr [''192.168.1.100'']) 1040
      = Inr \<lparr>success = False, resp_data = None, resp_error = Some ''IP service down'',
             resp_timestamp = 1040\<rparr>"
  by (simp add: healthCheck_def getFullNetworkInfo_def promise_all2_def error_message_def)

section \<open>Proofs: validation of IP literals\<close>

declare nat_toString.simps [simp del]

lemma is_digit_char_of: "k < 10 \<Longrightarrow> is_digit (char_of (48 + k :: nat))"
  by (simp add: is_digit_def)

lemma digit_val_char_of: "k < 10 \<Longrightarrow> digit_val (char_of (48 + k :: nat)) = k"
  by (simp add: digit_val_def)

lemma nat_toString_not_Nil: "nat_toString n \<noteq> []"
  by (subst nat_toString.simps) simp

lemma nat_toString_digits: "list_all is_digit (nat_toString n)"
proof (induction n rule: nat_toString.induct)
  case (1 n)
  show ?case
  proof (cases "n < 10")
    case True
    then show ?thesis by (subst nat_toString.simps) (simp add: is_digit_char_of)
  next
    case False
    then show ?thesis using 1 by (subst nat_toString.simps) (simp add: is_digit_char_of)
  qed
qed

lemma digits_value_snoc: "digits_value (ds @ [c]) = 10 * digits_value ds + digit_val c"
  by (simp add: digits_value_def)

lemma digits_value_nat_toString: "digits_value (nat_toString n) = n"
proof (induction n rule: nat_toString.induct)
  case (1 n)
  show ?case
  proof (cases "n < 10")
    case True
    then show ?thesis
      by (subst nat_toString.simps) (simp add: digits_value_def digit_val_char_of)
  next
    case False
    then have "digits_value (nat_toString n) = 10 * (n div 10) + n mod 10"
      using 1 by (subst nat_toString.simps) (simp add: digits_value_snoc digit_val_char_of)
    then show ?thesis by simp
  qed
qed

lemma length_nat_toString: "n < 1000 \<Longrightarrow> length (nat_toString n) \<le> 3"
proof -
  assume n: "n < 1000"
  have one: "length (nat_toString k) = 1" if "k < 10" for k
    using that by (subst nat_toString.simps) simp
  have two: "length (nat_toString k) \<le> 2" if "k < 100" for k
    using that one[of "k div 10"] by (subst nat_toString.simps) (auto simp: one)
  show ?thesis
    using n two[of "n div 10"] by (subst nat_toString.simps) (auto simp: one)
qed

lemma digit_not_space: "is_digit c \<Longrightarrow> \<not> is_space c"
  by (auto simp: is_digit_def is_space_def)

lemma digit_not_sign: "is_digit c \<Longrightarrow> c \<noteq> CHR ''-'' \<and> c \<noteq> CHR ''+''"
  by (auto simp: is_digit_def)

lemma parseInt_digits:
  assumes "s \<noteq> []" "list_all is_digit s"
  shows "parseInt s = Some (int (digits_value s))"
proof -
  from assms obtain c r where s: "s = c # r" by (cases s) auto
  have c: "is_digit c" using assms s by simp
  have tw: "takeWhile is_digit r = r"
    using assms(2) s by (simp add: list_all_iff takeWhile_eq_all_conv)
  have dw: "dropWhile is_space s = s" using c s by (simp add: digit_not_space)
  show ?thesis
    unfolding parseInt_def dw Let_def using s c digit_not_sign[OF c] by (simp add: tw)
qed

lemma octet_check_iff:
  "(case parseInt g of None \<Rightarrow> False
     | Some num \<Rightarrow> num \<ge> 0 \<and> num \<le> 255 \<and> g = num_toString num) = spec_ipv4_octet g"
proof
  assume a: "case parseInt g of None \<Rightarrow> False
     | Some num \<Rightarrow> num \<ge> 0 \<and> num \<le> 255 \<and> g = num_toString num"
  then obtain num where n: "parseInt g = Some num" "0 \<le> num" "num \<le> 255" "g = num_toString num"
    by (auto split: option.splits)
  then have "g = nat_toString (nat num)" "nat num \<le> 255" by (simp_all add: num_toString_def)
  then show "spec_ipv4_octet g" unfolding spec_ipv4_octet_def by auto
next
  assume "spec_ipv4_octet g"
  then obtain n where n: "n \<le> 255" "g = nat_toString n" unfolding spec_ipv4_octet_def by auto
  have "parseInt g = Some (int n)"
    using parseInt_digits[of g] n nat_toString_not_Nil nat_toString_digits
    by (simp add: digits_value_nat_toString)
  moreover have "g = num_toString (int n)" using n by (simp add: num_toString_def)
  ultimately show "case parseInt g of None \<Rightarrow> False
     | Some num \<Rightarrow> num \<ge> 0 \<and> num \<le> 255 \<and> g = num_toString num"
    using n by simp
qed

lemma spec_octet_digit_group: "spec_ipv4_octet g \<Longrightarrow> digit_group g"
proof -
  assume "spec_ipv4_octet g"
  then obtain n where n: "n \<le> 255" "g = nat_toString n" unfolding spec_ipv4_octet_def by auto
  have "length g \<le> 3" using length_nat_toString[of n] n by simp
  moreover have "1 \<le> length g" using nat_toString_not_Nil[of n] n
    by (simp add: Suc_le_eq)
  ultimately show "digit_group g" using n nat_toString_digits by (simp add: digit_group_def)
qed

lemma fallback_ipv4_iff:
  "(ipv4Regex_test ip \<and> fallbackIpValidation ip) = spec_ipv4_literal ip"
proof -
  have "list_all spec_ipv4_octet gs \<Longrightarrow> list_all digit_group gs" for gs
    using spec_octet_digit_group by (auto simp: list_all_iff)
  then show ?thesis
    unfolding fallbackIpValidation_def ipv4Regex_test_def spec_ipv4_literal_def octet_check_iff
    by auto
qed

















lemma dotted_not_ipv6_shape: "CHR ''.'' \<in> set ip \<Longrightarrow> \<not> ipv6Regex_test ip"
proof
  assume d: "CHR ''.'' \<in> set ip" and "ipv6Regex_test ip"
  then have "list_all (\<lambda>c. is_hex c \<or> c = CHR '':'') ip"
    unfolding ipv6Regex_test_def by (elim conjE)
  then have "is_hex CHR ''.'' \<or> CHR ''.'' = CHR '':''"
    using d unfolding list_all_iff by (rule bspec)
  then show False by (simp add: is_hex_def is_digit_def)
qed

lemma fallback_dotted_iff: "CHR ''.'' \<in> set ip \<Longrightarrow> fallbackIpValidation ip = spec_ipv4_literal ip"
proof -
  assume d: "CHR ''.'' \<in> set ip"
  have "fallbackIpValidation ip \<Longrightarrow> ipv4Regex_test ip"
    using dotted_not_ipv6_shape[OF d]
    unfolding fallbackIpValidation_def by (simp split: if_splits)
  then show ?thesis using fallback_ipv4_iff[of ip] by blast
qed

text \<open>
  C5. An IPv4 literal is four dot-separated groups, each the canonical decimal text of a
  number in \<open>[0,255]\<close>. The fallback validator of the IP manager accepts a string on its
  IPv4 branch exactly when the string is such a literal, and it accepts a string that
  contains a dot only when the string is such a literal. The validator the location manager
  applies to the caller's parameter does not: it accepts \<open>256.1.1.1\<close>, and \<open>getLocation\<close>
  goes on to contact the providers with it instead of failing fast.
\<close>

theorem ipv4_validation_two_validators:
  "((ipv4Regex_test ip \<and> fallbackIpValidation ip) = spec_ipv4_literal ip)
   \<and> (CHR ''.'' \<in> set ip \<longrightarrow> fallbackIpValidation ip = spec_ipv4_literal ip)
   \<and> \<not> spec_ipv4_literal ''256.1.1.1''
   \<and> \<not> fallbackIpValidation ''256.1.1.1''
   \<and> LocationManager_isValidIp ''256.1.1.1''
   \<and> fst (getLocation mockConfig always_rejected (Some ''256.1.1.1'') fresh)
        = Inl (Error ''All geolocation providers failed'')
   \<and> map fst (contacted (snd (getLocation mockConfig always_rejected (Some ''256.1.1.1'') fresh)))
        = [''https://ipapi.co/256.1.1.1/json/'', ''https://ipwho.is/256.1.1.1/json/'',
           ''https://ipinfo.io/256.1.1.1/json/'']"
proof -
  have f: "\<not> fallbackIpValidation ''256.1.1.1''" by code_simp
  have s: "\<not> spec_ipv4_literal ''256.1.1.1''"
  proof
    assume "spec_ipv4_literal ''256.1.1.1''"
    from iffD2[OF fallback_ipv4_iff this] f show False by (elim conjE notE)
  qed
  have l: "LocationManager_isValidIp ''256.1.1.1''" by code_simp
  have g: "fst (getLocation mockConfig always_rejected (Some ''256.1.1.1'') fresh)
        = Inl (Error ''All geolocation providers failed'')" by code_simp
  have c: "map fst (contacted (snd (getLocation mockConfig always_rejected (Some ''256.1.1.1'') fresh)))
        = [''https://ipapi.co/256.1.1.1/json/'', ''https://ipwho.is/256.1.1.1/json/'',
           ''https://ipinfo.io/256.1.1.1/json/'']" by code_simp
  have d: "CHR ''.'' \<in> set ip \<longrightarrow> fallbackIpValidation ip = spec_ipv4_literal ip"
    using fallback_dotted_iff by (rule impI)
  show ?thesis by (intro conjI fallback_ipv4_iff d f s l g c)
qed

theorem ipv4_validation_two_validators_witness:
  "spec_ipv4_literal ''192.168.1.1'' \<and> fallbackIpValidation ''192.168.1.1''
   \<and> \<not> fallbackIpValidation ''192.168.01.1''
   \<and> \<not> spec_ipv4_literal ''192.168.01.1''
   \<and> CHR ''.'' \<in> set ''192.168.1.1.1''
   \<and> \<not> fallbackIpValidation ''192.168.1.1.1''
   \<and> \<not> spec_ipv4_literal ''192.168.1.1.1''"
proof -
  have a: "ipv4Regex_test ''192.168.1.1'' \<and> fallbackIpValidation ''192.168.1.1''" by code_simp
  have b: "\<not> fallbackIpValidation ''192.168.01.1''" by code_simp
  note T1 = iffD1[OF conjunct1[OF ipv4_validation_two_validators] a]
  have T2: "\<not> spec_ipv4_literal ''192.168.01.1''"
  proof
    assume "spec_ipv4_literal ''192.168.01.1''"
    from iffD2[OF conjunct1[OF ipv4_validation_two_validators] this] b show False
      by (elim conjE notE)
  qed
  have dot: "CHR ''.'' \<in> set ''192.168.1.1.1''" by simp
  have r: "\<not> fallbackIpValidation ''192.168.1.1.1''" by code_simp
  note T3 = mp[OF conjunct1[OF conjunct2[OF ipv4_validation_two_validators]] dot]
  have T4: "\<not> spec_ipv4_literal ''192.168.1.1.1''"
    using r unfolding T3 .
  show ?thesis by (intro conjI T1 conjunct2[OF a] b T2 dot r T4)
qed

end
